theory Spec2Isabelle
  imports Main "HOL-Library.Word"
begin

section \<open>The checkpoint registry of \<open>src/checkpoints/checkpoints.cpp\<close>\<close>

subsection \<open>Data model\<close>

text \<open>
  Heights are \<open>uint64_t\<close>. The class \<open>checkpoints\<close> holds two \<open>std::map\<close>s keyed by
  height: \<open>m_points\<close> (block hashes) and \<open>m_difficulty_points\<close> (cumulative difficulties).
  A \<open>std::map\<close> is modelled by the list of its entries in iteration order, that is by
  strictly ascending key; an iterator is a position in that list (\<open>begin()\<close> is 0 and
  \<open>end()\<close> is the length). The types \<open>crypto::hash\<close> and \<open>difficulty_type\<close> are declared
  outside the excerpt and the registry only compares their values with \<open>==\<close>, so they are
  the type parameters \<open>'h\<close> and \<open>'d\<close>.
\<close>

type_synonym uint64_t = "64 word"

record ('h, 'd) checkpoints =
  m_points :: "(uint64_t \<times> 'h) list"
  m_difficulty_points :: "(uint64_t \<times> 'd) list"

text \<open>The constructor \<open>checkpoints::checkpoints()\<close> leaves both maps empty.\<close>

definition checkpoints :: "('h, 'd) checkpoints" where
  "checkpoints = \<lparr>m_points = [], m_difficulty_points = []\<rparr>"

text \<open>\<open>struct t_hashline\<close> and \<open>struct t_hash_json\<close>: the records of the JSON hash file.\<close>

record t_hashline =
  height :: uint64_t
  hash :: string

record t_hash_json =
  hashlines :: "t_hashline list"

text \<open>
  Modelled from the spec: \<open>network_type\<close> is declared outside the excerpt; the spec names the
  networks main, test and stage, and the code mentions \<open>TESTNET\<close> and \<open>STAGENET\<close>.
\<close>

datatype network_type = MAINNET | TESTNET | STAGENET

text \<open>
  The collaborators the code calls but does not define are parameters of the model:
  \<open>epee::string_tools::hex_to_pod\<close> (\<open>None\<close> when it returns false), the constructor of
  \<open>difficulty_type\<close> from a string (\<open>None\<close> when it throws),
  \<open>boost::filesystem::exists\<close> and \<open>epee::serialization::load_t_from_json_file\<close>
  (\<open>None\<close> when it returns false).
\<close>

record ('h, 'd) externals =
  hex_to_pod :: "string \<Rightarrow> 'h option"
  difficulty_of_string :: "string \<Rightarrow> 'd option"
  file_exists :: "string \<Rightarrow> bool"
  load_t_from_json_file :: "string \<Rightarrow> t_hash_json option"

subsection \<open>The operations of \<open>std::map\<close> that the code uses\<close>

text \<open>
  \<open>m.count(k)\<close> and \<open>m.find(k)\<close> are \<open>map_of m k\<close>. The assignment \<open>m[k] = v\<close>
  replaces the value of an existing key and otherwise inserts the entry at its place in
  the key order.
\<close>

fun map_assign :: "'k::linorder \<Rightarrow> 'v \<Rightarrow> ('k \<times> 'v) list \<Rightarrow> ('k \<times> 'v) list" where
  "map_assign k v [] = [(k, v)]"
| "map_assign k v (p # m) =
     (if fst p = k then (k, v) # m
      else if k < fst p then (k, v) # p # m
      else p # map_assign k v m)"

text \<open>\<open>m.upper_bound(k)\<close>: the position of the first entry whose key is greater than \<open>k\<close>.\<close>

fun upper_bound :: "('k::linorder \<times> 'v) list \<Rightarrow> 'k \<Rightarrow> nat" where
  "upper_bound [] k = 0"
| "upper_bound (p # m) k = (if k < fst p then 0 else Suc (upper_bound m k))"

text \<open>The invariant of \<open>std::map\<close>: keys strictly ascending in iteration order.\<close>

definition map_ordered :: "('k::linorder \<times> 'v) list \<Rightarrow> bool" where
  "map_ordered m = sorted_wrt (<) (map fst m)"

definition wf_checkpoints :: "('h, 'd) checkpoints \<Rightarrow> bool" where
  "wf_checkpoints s = (map_ordered (m_points s) \<and> map_ordered (m_difficulty_points s))"

text \<open>The set of anchored heights, the keys of \<open>m_points\<close>.\<close>

definition anchored :: "('h, 'd) checkpoints \<Rightarrow> uint64_t set" where
  "anchored s = fst ` set (m_points s)"

subsection \<open>\<open>checkpoints::add_checkpoint\<close>\<close>

text \<open>
  Returns the result and the registry afterwards. \<open>CHECK_AND_ASSERT_MES(c, false, _)\<close>
  returns false when \<open>c\<close> fails. The hash is stored (line 88) before the difficulty
  string is looked at; the \<open>catch (...)\<close> of line 100 returns false.
\<close>

definition add_checkpoint ::
  "('h, 'd) externals \<Rightarrow> uint64_t \<Rightarrow> string \<Rightarrow> string \<Rightarrow> ('h, 'd) checkpoints
     \<Rightarrow> bool \<times> ('h, 'd) checkpoints" where
  "add_checkpoint E hgt hash_str difficulty_str s =
     (case hex_to_pod E hash_str of
        None \<Rightarrow> (False, s)
      | Some h \<Rightarrow>
          if map_of (m_points s) hgt \<noteq> None \<and> map_of (m_points s) hgt \<noteq> Some h
          then (False, s)
          else
            let s1 = s\<lparr>m_points := map_assign hgt h (m_points s)\<rparr> in
            if difficulty_str = [] then (True, s1)
            else
              (case difficulty_of_string E difficulty_str of
                 None \<Rightarrow> (False, s1)
               | Some difficulty \<Rightarrow>
                   if map_of (m_difficulty_points s1) hgt \<noteq> None
                      \<and> map_of (m_difficulty_points s1) hgt \<noteq> Some difficulty
                   then (False, s1)
                   else (True, s1\<lparr>m_difficulty_points :=
                                   map_assign hgt difficulty (m_difficulty_points s1)\<rparr>)))"

text \<open>
  Modelled from the spec: the macro \<open>ADD_CHECKPOINT(h, hash)\<close> is defined in
  \<open>checkpoints.h\<close>, outside the excerpt. By the spec a decode failure or an insertion
  conflict fails the whole load: the macro calls \<open>add_checkpoint(h, hash)\<close> with the
  empty difficulty string and makes the enclosing function return false when the call
  fails. \<open>ADD_CHECKPOINT\<close> here is the call; the early return is in the loop below.
\<close>

definition ADD_CHECKPOINT ::
  "('h, 'd) externals \<Rightarrow> uint64_t \<Rightarrow> string \<Rightarrow> ('h, 'd) checkpoints
     \<Rightarrow> bool \<times> ('h, 'd) checkpoints" where
  "ADD_CHECKPOINT E hgt hash_str s = add_checkpoint E hgt hash_str [] s"

subsection \<open>The queries\<close>

definition is_in_checkpoint_zone :: "('h, 'd) checkpoints \<Rightarrow> uint64_t \<Rightarrow> bool" where
  "is_in_checkpoint_zone s hgt =
     (m_points s \<noteq> [] \<and> hgt \<le> fst (last (m_points s)))"

text \<open>
  \<open>check_block(height, h, is_a_checkpoint)\<close>: the pair of the returned value and of the
  out-parameter \<open>is_a_checkpoint\<close>. The method is \<open>const\<close>: it has no registry to return.
\<close>

definition check_block :: "('h, 'd) checkpoints \<Rightarrow> uint64_t \<Rightarrow> 'h \<Rightarrow> bool \<times> bool" where
  "check_block s hgt h =
     (case map_of (m_points s) hgt of
        None \<Rightarrow> (True, False)
      | Some expected \<Rightarrow> if expected = h then (True, True) else (False, True))"

definition is_alternative_block_allowed ::
  "('h, 'd) checkpoints \<Rightarrow> uint64_t \<Rightarrow> uint64_t \<Rightarrow> bool" where
  "is_alternative_block_allowed s blockchain_height block_height =
     (if 0 = block_height then False
      else
        let it = upper_bound (m_points s) blockchain_height in
        if it = 0 then True
        else
          let checkpoint_height = fst (m_points s ! (it - 1)) in
          checkpoint_height < block_height)"

definition get_max_height :: "('h, 'd) checkpoints \<Rightarrow> uint64_t" where
  "get_max_height s = (if m_points s = [] then 0 else fst (last (m_points s)))"

text \<open>
  \<open>check_for_conflicts(other)\<close> is \<open>const\<close>: the loop over \<open>other.get_points()\<close> returns
  false at the first point whose height is in \<open>m_points\<close> with another hash.
\<close>

fun conflict_loop :: "(uint64_t \<times> 'h) list \<Rightarrow> (uint64_t \<times> 'h) list \<Rightarrow> bool" where
  "conflict_loop m [] = True"
| "conflict_loop m (pt # pts) =
     (if map_of m (fst pt) \<noteq> None \<and> map_of m (fst pt) \<noteq> Some (snd pt) then False
      else conflict_loop m pts)"

definition check_for_conflicts ::
  "('h, 'd) checkpoints \<Rightarrow> ('h, 'd) checkpoints \<Rightarrow> bool" where
  "check_for_conflicts s other = conflict_loop (m_points s) (m_points other)"

subsection \<open>The loaders\<close>

text \<open>
  The loop of \<open>load_checkpoints_from_json\<close> over the hash lines, with the maximum height
  taken before the loop; a failing \<open>ADD_CHECKPOINT\<close> returns false at once.
\<close>

fun load_hashlines ::
  "('h, 'd) externals \<Rightarrow> uint64_t \<Rightarrow> t_hashline list \<Rightarrow> ('h, 'd) checkpoints
     \<Rightarrow> bool \<times> ('h, 'd) checkpoints" where
  "load_hashlines E prev_max_height [] s = (True, s)"
| "load_hashlines E prev_max_height (l # ls) s =
     (if height l \<le> prev_max_height then load_hashlines E prev_max_height ls s
      else
        (case ADD_CHECKPOINT E (height l) (hash l) s of
           (True, s1) \<Rightarrow> load_hashlines E prev_max_height ls s1
         | (False, s1) \<Rightarrow> (False, s1)))"

definition load_checkpoints_from_json ::
  "('h, 'd) externals \<Rightarrow> string \<Rightarrow> ('h, 'd) checkpoints \<Rightarrow> bool \<times> ('h, 'd) checkpoints" where
  "load_checkpoints_from_json E json_hashfile_fullpath s =
     (if \<not> file_exists E json_hashfile_fullpath then (True, s)
      else
        let prev_max_height = get_max_height s in
        (case load_t_from_json_file E json_hashfile_fullpath of
           None \<Rightarrow> (False, s)
         | Some hashes \<Rightarrow> load_hashlines E prev_max_height (hashlines hashes) s))"

text \<open>
  \<open>load_checkpoints_from_dns\<close> returns false on line 271, before anything else runs; the
  statements after it (the record loop and the final \<open>return false\<close>) are unreachable.
\<close>

definition load_checkpoints_from_dns ::
  "network_type \<Rightarrow> ('h, 'd) checkpoints \<Rightarrow> bool \<times> ('h, 'd) checkpoints" where
  "load_checkpoints_from_dns nettype s = (False, s)"

text \<open>\<open>result &= ...\<close> evaluates the call whenever \<open>dns\<close> is set.\<close>

definition load_new_checkpoints ::
  "('h, 'd) externals \<Rightarrow> string \<Rightarrow> network_type \<Rightarrow> bool \<Rightarrow> ('h, 'd) checkpoints
     \<Rightarrow> bool \<times> ('h, 'd) checkpoints" where
  "load_new_checkpoints E json_hashfile_fullpath nettype dns s =
     (case load_checkpoints_from_json E json_hashfile_fullpath s of
        (result, s1) \<Rightarrow>
          if dns then
            (case load_checkpoints_from_dns nettype s1 of
               (r, s2) \<Rightarrow> (result \<and> r, s2))
          else (result, s1))"

subsection \<open>The merge of the specification\<close>

text \<open>
  The specification's words, for comparison with \<open>check_for_conflicts\<close>.
  \<open>insert_hash_anchor(height, hash)\<close>: if the height is absent, insert and succeed; if
  present with an equal hash, succeed without change; if present with a differing hash,
  fail and leave the store unchanged. \<open>merge(other_store)\<close>: for every hash anchor of the
  other store, apply \<open>insert_hash_anchor\<close>; on the first conflict, abort.
\<close>

definition spec_insert_hash_anchor ::
  "uint64_t \<Rightarrow> 'h \<Rightarrow> ('h, 'd) checkpoints \<Rightarrow> bool \<times> ('h, 'd) checkpoints" where
  "spec_insert_hash_anchor hgt h s =
     (case map_of (m_points s) hgt of
        None \<Rightarrow> (True, s\<lparr>m_points := map_assign hgt h (m_points s)\<rparr>)
      | Some h0 \<Rightarrow> if h0 = h then (True, s) else (False, s))"

fun spec_merge_anchors ::
  "(uint64_t \<times> 'h) list \<Rightarrow> ('h, 'd) checkpoints \<Rightarrow> bool \<times> ('h, 'd) checkpoints" where
  "spec_merge_anchors [] s = (True, s)"
| "spec_merge_anchors (pt # pts) s =
     (case spec_insert_hash_anchor (fst pt) (snd pt) s of
        (True, s1) \<Rightarrow> spec_merge_anchors pts s1
      | (False, s1) \<Rightarrow> (False, s1))"

definition spec_merge ::
  "('h, 'd) checkpoints \<Rightarrow> ('h, 'd) checkpoints \<Rightarrow> bool \<times> ('h, 'd) checkpoints" where
  "spec_merge s other = spec_merge_anchors (m_points other) s"

subsection \<open>A concrete instance of the collaborators\<close>

text \<open>
  Modelled from the spec: the decoders and the file system are not under \<open>src/\<close>. The
  hex-to-binary decoder converts a fixed-length hex string (64 digits for the 32 bytes of
  a block hash) into the binary hash and reports malformed input as a decode error.
  The difficulty decoder reads the strings of \<open>init_default_checkpoints\<close>
  (\<open>0x\<close> followed by hex digits) and decimal strings, and reports anything else as
  malformed. The file system is a table from paths to the parsed content of a file, or to
  \<open>None\<close> for a file that exists and does not parse. The theorems below hold for every
  instance of the collaborators; this one evaluates them on inputs.
\<close>

definition hex_digit :: "char \<Rightarrow> nat option" where
  "hex_digit c =
     (let n = (of_char c :: nat) in
      if 48 \<le> n \<and> n \<le> 57 then Some (n - 48)
      else if 97 \<le> n \<and> n \<le> 102 then Some (n - 87)
      else if 65 \<le> n \<and> n \<le> 70 then Some (n - 55)
      else None)"

fun hex_bytes :: "string \<Rightarrow> 8 word list option" where
  "hex_bytes [] = Some []"
| "hex_bytes [c] = None"
| "hex_bytes (c # d # cs) =
     (case hex_digit c of
        None \<Rightarrow> None
      | Some a \<Rightarrow>
          (case hex_digit d of
             None \<Rightarrow> None
           | Some b \<Rightarrow>
               (case hex_bytes cs of
                  None \<Rightarrow> None
                | Some bs \<Rightarrow> Some (of_nat (16 * a + b) # bs))))"

definition hex_to_pod32 :: "string \<Rightarrow> 8 word list option" where
  "hex_to_pod32 s = (if length s = 64 then hex_bytes s else None)"

fun digits_value :: "nat \<Rightarrow> nat \<Rightarrow> string \<Rightarrow> nat option" where
  "digits_value base acc [] = Some acc"
| "digits_value base acc (c # cs) =
     (case hex_digit c of
        None \<Rightarrow> None
      | Some a \<Rightarrow> if a < base then digits_value base (base * acc + a) cs else None)"

definition difficulty_from_string :: "string \<Rightarrow> nat option" where
  "difficulty_from_string s =
     (case s of
        [] \<Rightarrow> None
      | c # cs \<Rightarrow>
          if c = CHR ''0'' then
            (case cs of
               [] \<Rightarrow> Some 0
             | x # ds \<Rightarrow> if x = CHR ''x'' \<and> ds \<noteq> [] then digits_value 16 0 ds else None)
          else digits_value 10 0 s)"

definition sample_externals ::
  "(string \<times> t_hash_json option) list \<Rightarrow> (8 word list, nat) externals" where
  "sample_externals files =
     \<lparr>hex_to_pod = hex_to_pod32,
      difficulty_of_string = difficulty_from_string,
      file_exists = (\<lambda>path. map_of files path \<noteq> None),
      load_t_from_json_file = (\<lambda>path. case map_of files path of Some (Some j) \<Rightarrow> Some j | _ \<Rightarrow> None)\<rparr>"

text \<open>
  Two hash strings of \<open>init_default_checkpoints\<close> (main network, heights 500 and 1000)
  and an override file, as sample inputs.
\<close>

definition mainnet_hash_500 :: string where
  "mainnet_hash_500 = ''ec0232324f503db6962a453eaa2eedd2084487a4c6db9aec90b3464229c20665''"

definition mainnet_hash_1000 :: string where
  "mainnet_hash_1000 = ''8234f234ba3a155176048e1cb0ec72c80148080e74fb5d45de9c7b730847a08d''"

text \<open>
  Sample registries: the registry after \<open>ADD_CHECKPOINT2(500, ...)\<close> of
  \<open>init_default_checkpoints\<close> on the empty registry, and a registry that anchors height
  500 with the hash of height 1000.
\<close>

definition sample_registry :: "(8 word list, nat) checkpoints" where
  "sample_registry =
     snd (add_checkpoint (sample_externals []) 500 mainnet_hash_500 ''0x1181d0'' checkpoints)"

definition conflicting_registry :: "(8 word list, nat) checkpoints" where
  "conflicting_registry =
     snd (add_checkpoint (sample_externals []) 500 mainnet_hash_1000 ''0x1181d0'' checkpoints)"

text \<open>
  Sample override files: one with a record below and a record above the anchors of
  \<open>sample_registry\<close>, two with a malformed hash, one that does not parse.
\<close>

definition sample_files :: "(string \<times> t_hash_json option) list" where
  "sample_files =
     [(''checkpoints.json'',
         Some \<lparr>hashlines = [\<lparr>height = 400, hash = mainnet_hash_1000\<rparr>,
                            \<lparr>height = 1000, hash = mainnet_hash_1000\<rparr>]\<rparr>),
      (''partial.json'',
         Some \<lparr>hashlines = [\<lparr>height = 1000, hash = mainnet_hash_1000\<rparr>,
                            \<lparr>height = 1500, hash = ''zz''\<rparr>]\<rparr>),
      (''skipped.json'',
         Some \<lparr>hashlines = [\<lparr>height = 1500, hash = ''zz''\<rparr>,
                            \<lparr>height = 2000, hash = mainnet_hash_1000\<rparr>]\<rparr>),
      (''broken.json'', None)]"

section \<open>Properties of the map operations\<close>

lemma map_of_map_assign: "map_of (map_assign k v m) = (map_of m)(k \<mapsto> v)"
  by (induction m) (auto simp: fun_eq_iff)

lemma keys_map_assign: "fst ` set (map_assign k v m) = insert k (fst ` set m)"
  by (induction m) auto

lemma map_ordered_map_assign: "map_ordered m \<Longrightarrow> map_ordered (map_assign k v m)"
  unfolding map_ordered_def
proof (induction m)
  case Nil
  then show ?case by simp
next
  case (Cons p m)
  have "\<forall>x \<in> fst ` set (map_assign k v m). fst p < x" if "fst p < k" "\<not> k < fst p"
    using that Cons.prems by (auto simp: keys_map_assign)
  with Cons show ?case by (auto simp: image_iff)
qed

lemma map_assign_twice: "map_assign k v (map_assign k v m) = map_assign k v m"
  by (induction m) auto

lemma upper_bound_zero:
  "map_ordered m \<Longrightarrow> (upper_bound m k = 0) = (\<forall>x \<in> fst ` set m. k < x)"
  unfolding map_ordered_def by (cases m) auto

lemma upper_bound_le: "upper_bound m k \<le> length m"
  by (induction m) auto

lemma upper_bound_pred:
  "map_ordered m \<Longrightarrow> upper_bound m k \<noteq> 0 \<Longrightarrow>
     fst (m ! (upper_bound m k - 1)) \<in> fst ` set m
     \<and> fst (m ! (upper_bound m k - 1)) \<le> k
     \<and> (\<forall>x \<in> fst ` set m. x \<le> k \<longrightarrow> x \<le> fst (m ! (upper_bound m k - 1)))"
proof (induction m)
  case Nil
  then show ?case by simp
next
  case (Cons p m)
  from Cons.prems have le: "fst p \<le> k" by (auto split: if_splits)
  from Cons.prems have ord: "map_ordered m" and lt: "\<forall>x \<in> fst ` set m. fst p < x"
    by (auto simp: map_ordered_def)
  show ?case
  proof (cases "upper_bound m k = 0")
    case True
    with ord have "\<forall>x \<in> fst ` set m. k < x" by (simp add: upper_bound_zero)
    with True le show ?thesis by auto
  next
    case False
    with Cons.IH ord have IH: "fst (m ! (upper_bound m k - 1)) \<in> fst ` set m"
      "fst (m ! (upper_bound m k - 1)) \<le> k"
      "\<forall>x \<in> fst ` set m. x \<le> k \<longrightarrow> x \<le> fst (m ! (upper_bound m k - 1))"
      by blast+
    from False obtain n where n: "upper_bound m k = Suc n" by (cases "upper_bound m k") auto
    from IH(1) lt have "fst p \<le> fst (m ! (upper_bound m k - 1))" by auto
    with IH le n show ?thesis by auto
  qed
qed

lemma last_is_Max:
  "map_ordered m \<Longrightarrow> m \<noteq> [] \<Longrightarrow> fst (last m) = Max (fst ` set m)"
proof (induction m)
  case Nil
  then show ?case by simp
next
  case (Cons p m)
  show ?case
  proof (cases "m = []")
    case True
    then show ?thesis by simp
  next
    case False
    from Cons.prems have ord: "map_ordered m" and lt: "\<forall>x \<in> fst ` set m. fst p < x"
      by (auto simp: map_ordered_def)
    from False ord Cons.IH have IH: "fst (last m) = Max (fst ` set m)" by simp
    have "Max (fst ` set m) \<in> fst ` set m" using False by (intro Max_in) auto
    with lt have "fst p < Max (fst ` set m)" by blast
    then have "max (fst p) (Max (fst ` set m)) = Max (fst ` set m)"
      by (intro max_absorb2 less_imp_le)
    with False IH show ?thesis by simp
  qed
qed

section \<open>The sample inputs, evaluated\<close>

lemma hex_500:
  "hex_to_pod32 mainnet_hash_500 =
     Some [236, 2, 50, 50, 79, 80, 61, 182, 150, 42, 69, 62, 170, 46, 237, 210, 8, 68, 135,
           164, 198, 219, 154, 236, 144, 179, 70, 66, 41, 194, 6, 101]"
  by (simp add: hex_to_pod32_def hex_digit_def mainnet_hash_500_def)

lemma hex_1000:
  "hex_to_pod32 mainnet_hash_1000 =
     Some [130, 52, 242, 52, 186, 58, 21, 81, 118, 4, 142, 28, 176, 236, 114, 200, 1, 72, 8,
           14, 116, 251, 93, 69, 222, 156, 123, 115, 8, 71, 160, 141]"
  by (simp add: hex_to_pod32_def hex_digit_def mainnet_hash_1000_def)

lemma hex_zz: "hex_to_pod32 ''zz'' = None"
  by (simp add: hex_to_pod32_def)

lemma difficulty_samples:
  "difficulty_from_string ''0x1181d0'' = Some 1147344"
  "difficulty_from_string ''0x14bef2'' = Some 1359602"
  "difficulty_from_string ''zz'' = None"
  by (simp_all add: difficulty_from_string_def hex_digit_def)

lemma sample_externals_sel:
  "hex_to_pod (sample_externals files) = hex_to_pod32"
  "difficulty_of_string (sample_externals files) = difficulty_from_string"
  by (simp_all add: sample_externals_def)

lemma sample_registry_eq:
  "sample_registry =
     \<lparr>m_points = [(500, [236, 2, 50, 50, 79, 80, 61, 182, 150, 42, 69, 62, 170, 46, 237, 210,
                          8, 68, 135, 164, 198, 219, 154, 236, 144, 179, 70, 66, 41, 194, 6,
                          101])],
      m_difficulty_points = [(500, 1147344)]\<rparr>"
  by (simp add: sample_registry_def add_checkpoint_def sample_externals_sel hex_500
      difficulty_samples checkpoints_def)

lemmas sample_simps = sample_externals_sel hex_500 hex_1000 hex_zz difficulty_samples
  sample_registry_eq

lemma conflicting_registry_eq:
  "conflicting_registry =
     \<lparr>m_points = [(500, [130, 52, 242, 52, 186, 58, 21, 81, 118, 4, 142, 28, 176, 236, 114,
                          200, 1, 72, 8, 14, 116, 251, 93, 69, 222, 156, 123, 115, 8, 71, 160,
                          141])],
      m_difficulty_points = [(500, 1147344)]\<rparr>"
  by (simp add: conflicting_registry_def add_checkpoint_def sample_externals_sel hex_1000
      difficulty_samples checkpoints_def)

lemma sample_files_sel:
  "file_exists (sample_externals sample_files) ''checkpoints.json''"
  "file_exists (sample_externals sample_files) ''partial.json''"
  "file_exists (sample_externals sample_files) ''skipped.json''"
  "file_exists (sample_externals sample_files) ''broken.json''"
  "\<not> file_exists (sample_externals sample_files) ''missing.json''"
  "load_t_from_json_file (sample_externals sample_files) ''checkpoints.json'' =
     Some \<lparr>hashlines = [\<lparr>height = 400, hash = mainnet_hash_1000\<rparr>,
                        \<lparr>height = 1000, hash = mainnet_hash_1000\<rparr>]\<rparr>"
  "load_t_from_json_file (sample_externals sample_files) ''partial.json'' =
     Some \<lparr>hashlines = [\<lparr>height = 1000, hash = mainnet_hash_1000\<rparr>,
                        \<lparr>height = 1500, hash = ''zz''\<rparr>]\<rparr>"
  "load_t_from_json_file (sample_externals sample_files) ''skipped.json'' =
     Some \<lparr>hashlines = [\<lparr>height = 1500, hash = ''zz''\<rparr>,
                        \<lparr>height = 2000, hash = mainnet_hash_1000\<rparr>]\<rparr>"
  "load_t_from_json_file (sample_externals sample_files) ''broken.json'' = None"
  by (simp_all add: sample_externals_def sample_files_def)

lemma sample_max_height: "get_max_height sample_registry = 500"
  by (simp add: get_max_height_def sample_registry_eq)

section \<open>Properties of \<open>add_checkpoint\<close>\<close>

lemma wf_checkpoints_empty: "wf_checkpoints checkpoints"
  by (simp add: wf_checkpoints_def checkpoints_def map_ordered_def)

lemma add_checkpoint_wf:
  "wf_checkpoints s \<Longrightarrow> wf_checkpoints (snd (add_checkpoint E hgt hash_str difficulty_str s))"
  by (auto simp: add_checkpoint_def wf_checkpoints_def Let_def map_ordered_map_assign
      split: option.splits)

lemma add_checkpoint_points:
  "m_points (snd (add_checkpoint E hgt hash_str difficulty_str s)) = m_points s
   \<or> (\<exists>h. hex_to_pod E hash_str = Some h
          \<and> (map_of (m_points s) hgt = None \<or> map_of (m_points s) hgt = Some h)
          \<and> m_points (snd (add_checkpoint E hgt hash_str difficulty_str s))
              = map_assign hgt h (m_points s))"
  by (auto simp: add_checkpoint_def Let_def split: option.splits)

lemma add_checkpoint_success:
  "fst (add_checkpoint E hgt hash_str difficulty_str s) =
     (\<exists>h. hex_to_pod E hash_str = Some h
          \<and> (map_of (m_points s) hgt = None \<or> map_of (m_points s) hgt = Some h)
          \<and> (difficulty_str = []
               \<or> (\<exists>d. difficulty_of_string E difficulty_str = Some d
                      \<and> (map_of (m_difficulty_points s) hgt = None
                           \<or> map_of (m_difficulty_points s) hgt = Some d))))"
  by (auto simp: add_checkpoint_def Let_def split: option.splits)

lemma add_checkpoint_again:
  "add_checkpoint E hgt hash_str difficulty_str
       (snd (add_checkpoint E hgt hash_str difficulty_str s))
     = add_checkpoint E hgt hash_str difficulty_str s"
  by (auto simp: add_checkpoint_def Let_def map_of_map_assign map_assign_twice
      split: option.splits)

lemma add_checkpoint_no_difficulty_failure:
  "add_checkpoint E hgt hash_str [] s = (False, s1) \<Longrightarrow>
     s1 = s \<and> (hex_to_pod E hash_str = None
              \<or> (\<exists>h h0. hex_to_pod E hash_str = Some h \<and> map_of (m_points s) hgt = Some h0
                       \<and> h0 \<noteq> h))"
  by (auto simp: add_checkpoint_def Let_def split: option.splits if_splits)

lemma add_checkpoint_no_difficulty_success:
  "add_checkpoint E hgt hash_str [] s = (True, s1) \<Longrightarrow>
     \<exists>h. hex_to_pod E hash_str = Some h
        \<and> (map_of (m_points s) hgt = None \<or> map_of (m_points s) hgt = Some h)
        \<and> s1 = s\<lparr>m_points := map_assign hgt h (m_points s)\<rparr>"
  by (auto simp: add_checkpoint_def Let_def split: option.splits if_splits)

lemma add_checkpoint_keeps:
  "map_of (m_points s) k = Some v \<Longrightarrow>
     map_of (m_points (snd (add_checkpoint E hgt hash_str difficulty_str s))) k = Some v"
  using add_checkpoint_points [of E hgt hash_str difficulty_str s]
  by (auto simp: map_of_map_assign)

section \<open>Properties of the loop of \<open>load_checkpoints_from_json\<close>\<close>

lemma load_hashlines_append:
  "load_hashlines E b (xs @ ys) s =
     (case load_hashlines E b xs s of
        (True, s1) \<Rightarrow> load_hashlines E b ys s1
      | (False, s1) \<Rightarrow> (False, s1))"
  by (induction xs arbitrary: s) (auto split: prod.splits bool.splits)

lemma load_hashlines_failure:
  "load_hashlines E b ls s = (False, s') \<Longrightarrow>
     \<exists>pre l post. ls = pre @ l # post
        \<and> load_hashlines E b pre s = (True, s')
        \<and> b < height l
        \<and> add_checkpoint E (height l) (hash l) [] s' = (False, s')"
proof (induction ls arbitrary: s)
  case Nil
  then show ?case by simp
next
  case (Cons l ls)
  show ?case
  proof (cases "height l \<le> b")
    case True
    with Cons.prems have "load_hashlines E b ls s = (False, s')" by simp
    from Cons.IH [OF this] obtain pre x post where
      "ls = pre @ x # post" "load_hashlines E b pre s = (True, s')" "b < height x"
      "add_checkpoint E (height x) (hash x) [] s' = (False, s')"
      by blast
    with True have "l # ls = (l # pre) @ x # post \<and> load_hashlines E b (l # pre) s = (True, s')
        \<and> b < height x \<and> add_checkpoint E (height x) (hash x) [] s' = (False, s')"
      by simp
    then show ?thesis by blast
  next
    case False
    then have above: "b < height l" by simp
    obtain r s1 where add: "add_checkpoint E (height l) (hash l) [] s = (r, s1)"
      by (cases "add_checkpoint E (height l) (hash l) [] s")
    show ?thesis
    proof (cases r)
      case True
      with Cons.prems False add have "load_hashlines E b ls s1 = (False, s')"
        by (simp add: ADD_CHECKPOINT_def)
      from Cons.IH [OF this] obtain pre x post where
        "ls = pre @ x # post" "load_hashlines E b pre s1 = (True, s')" "b < height x"
        "add_checkpoint E (height x) (hash x) [] s' = (False, s')"
        by blast
      with True False add
      have "l # ls = (l # pre) @ x # post \<and> load_hashlines E b (l # pre) s = (True, s')
          \<and> b < height x \<and> add_checkpoint E (height x) (hash x) [] s' = (False, s')"
        by (simp add: ADD_CHECKPOINT_def)
      then show ?thesis by blast
    next
      case r: False
      with Cons.prems False add have "s' = s1" by (simp add: ADD_CHECKPOINT_def)
      moreover from r add have "add_checkpoint E (height l) (hash l) [] s = (False, s1)"
        by simp
      from add_checkpoint_no_difficulty_failure [OF this] have "s1 = s" by blast
      ultimately have "l # ls = [] @ l # ls \<and> load_hashlines E b [] s = (True, s')
          \<and> b < height l \<and> add_checkpoint E (height l) (hash l) [] s' = (False, s')"
        using above add r by simp
      then show ?thesis by blast
    qed
  qed
qed

lemma load_hashlines_filter:
  "load_hashlines E b ls s = load_hashlines E b (filter (\<lambda>l. b < height l) ls) s"
proof (induction ls arbitrary: s)
  case Nil
  show ?case by simp
next
  case (Cons l ls)
  let ?above = "filter (\<lambda>l. b < height l)"
  show ?case
  proof (cases "height l \<le> b")
    case True
    then have "?above (l # ls) = ?above ls" by simp
    moreover from True have "load_hashlines E b (l # ls) s = load_hashlines E b ls s" by simp
    moreover have "load_hashlines E b ls s = load_hashlines E b (?above ls) s" by (rule Cons.IH)
    ultimately show ?thesis by (simp only:)
  next
    case False
    then have keep: "?above (l # ls) = l # ?above ls" by simp
    obtain r s1 where add: "ADD_CHECKPOINT E (height l) (hash l) s = (r, s1)"
      by (cases "ADD_CHECKPOINT E (height l) (hash l) s")
    show ?thesis
    proof (cases r)
      case True
      with False add have "load_hashlines E b (l # ls) s = load_hashlines E b ls s1" by simp
      also have "\<dots> = load_hashlines E b (?above ls) s1" by (rule Cons.IH)
      also from True False add have "\<dots> = load_hashlines E b (l # ?above ls) s" by simp
      finally show ?thesis by (simp only: keep)
    next
      case r: False
      with False add have "load_hashlines E b (l # ls) s = (False, s1)" by simp
      moreover from r False add have "load_hashlines E b (l # ?above ls) s = (False, s1)"
        by simp
      ultimately show ?thesis by (simp only: keep)
    qed
  qed
qed

lemma load_hashlines_difficulty:
  "m_difficulty_points (snd (load_hashlines E b ls s)) = m_difficulty_points s"
proof (induction ls arbitrary: s)
  case Nil
  then show ?case by simp
next
  case (Cons l ls)
  have "m_difficulty_points (snd (add_checkpoint E (height l) (hash l) [] s))
          = m_difficulty_points s"
    by (simp add: add_checkpoint_def Let_def split: option.splits)
  with Cons.IH show ?case
    by (auto simp: ADD_CHECKPOINT_def split: prod.splits bool.splits)
qed

lemma load_hashlines_below:
  "k \<le> b \<Longrightarrow> map_of (m_points (snd (load_hashlines E b ls s))) k = map_of (m_points s) k"
proof (induction ls arbitrary: s)
  case Nil
  then show ?case by simp
next
  case (Cons l ls)
  show ?case
  proof (cases "height l \<le> b")
    case True
    with Cons show ?thesis by simp
  next
    case False
    with Cons.prems have ne: "k \<noteq> height l" by auto
    obtain r s1 where add: "add_checkpoint E (height l) (hash l) [] s = (r, s1)"
      by (cases "add_checkpoint E (height l) (hash l) [] s")
    have "map_of (m_points s1) k = map_of (m_points s) k"
      using add add_checkpoint_points [of E "height l" "hash l" "[]" s] ne
      by (auto simp: map_of_map_assign)
    with Cons False add show ?thesis
      by (cases r) (simp_all add: ADD_CHECKPOINT_def)
  qed
qed

lemma load_hashlines_keeps:
  "map_of (m_points s) k = Some v \<Longrightarrow>
     map_of (m_points (snd (load_hashlines E b ls s))) k = Some v"
proof (induction ls arbitrary: s)
  case Nil
  then show ?case by simp
next
  case (Cons l ls)
  obtain r s1 where add: "add_checkpoint E (height l) (hash l) [] s = (r, s1)"
    by (cases "add_checkpoint E (height l) (hash l) [] s")
  from Cons.prems add_checkpoint_keeps [of s k v E "height l" "hash l" "[]"] add
  have "map_of (m_points s1) k = Some v" by simp
  with Cons add show ?case
    by (cases r) (simp_all add: ADD_CHECKPOINT_def)
qed

lemma load_hashlines_reached:
  assumes "load_hashlines E b pre s = (True, s1)"
    and "b < height l"
    and "hex_to_pod E (hash l) = Some h"
    and "map_of (m_points s1) (height l) = None \<or> map_of (m_points s1) (height l) = Some h"
  shows "map_of (m_points (snd (load_hashlines E b (pre @ l # post) s))) (height l) = Some h"
proof -
  let ?s2 = "s1\<lparr>m_points := map_assign (height l) h (m_points s1)\<rparr>"
  from assms(3,4) have "add_checkpoint E (height l) (hash l) [] s1 = (True, ?s2)"
    by (auto simp: add_checkpoint_def Let_def)
  moreover from assms(2) have "\<not> height l \<le> b" by simp
  ultimately
  have run: "load_hashlines E b (pre @ l # post) s = load_hashlines E b post ?s2"
    using assms(1) by (simp add: load_hashlines_append ADD_CHECKPOINT_def)
  have "map_of (m_points ?s2) (height l) = Some h" by (simp add: map_of_map_assign)
  with run show ?thesis by (simp add: load_hashlines_keeps)
qed

lemma load_hashlines_success:
  "load_hashlines E b ls s = (True, s') \<Longrightarrow> l \<in> set ls \<Longrightarrow> b < height l \<Longrightarrow>
     hex_to_pod E (hash l) \<noteq> None
     \<and> map_of (m_points s') (height l) = hex_to_pod E (hash l)"
proof (induction ls arbitrary: s)
  case Nil
  then show ?case by simp
next
  case (Cons x ls)
  show ?case
  proof (cases "height x \<le> b")
    case True
    with Cons.prems have "load_hashlines E b ls s = (True, s')" "l \<in> set ls" by auto
    with Cons.IH Cons.prems(3) show ?thesis by blast
  next
    case False
    obtain r s1 where add: "add_checkpoint E (height x) (hash x) [] s = (r, s1)"
      by (cases "add_checkpoint E (height x) (hash x) [] s")
    with Cons.prems(1) False have r: "r" and rest: "load_hashlines E b ls s1 = (True, s')"
      by (cases r; simp add: ADD_CHECKPOINT_def)+
    show ?thesis
    proof (cases "l = x")
      case True
      from add r have "add_checkpoint E (height x) (hash x) [] s = (True, s1)" by simp
      from add_checkpoint_no_difficulty_success [OF this] obtain h where
        h: "hex_to_pod E (hash x) = Some h"
          "s1 = s\<lparr>m_points := map_assign (height x) h (m_points s)\<rparr>"
        by blast
      then have "map_of (m_points s1) (height x) = Some h" by (simp add: map_of_map_assign)
      from load_hashlines_keeps [OF this, of E b ls] rest
      have "map_of (m_points s') (height x) = Some h" by simp
      with h True show ?thesis by simp
    next
      case False
      with Cons.prems have "l \<in> set ls" by simp
      with Cons.IH rest Cons.prems(3) show ?thesis by blast
    qed
  qed
qed

lemma load_hashlines_wf:
  "wf_checkpoints s \<Longrightarrow> wf_checkpoints (snd (load_hashlines E b ls s))"
proof (induction ls arbitrary: s)
  case Nil
  then show ?case by simp
next
  case (Cons l ls)
  obtain r s1 where add: "add_checkpoint E (height l) (hash l) [] s = (r, s1)"
    by (cases "add_checkpoint E (height l) (hash l) [] s")
  from add_checkpoint_wf [OF Cons.prems, of E "height l" "hash l" "[]"] add
  have "wf_checkpoints s1" by simp
  with Cons add show ?case
    by (cases r) (simp_all add: ADD_CHECKPOINT_def)
qed

lemma load_partial:
  "load_checkpoints_from_json (sample_externals sample_files) ''partial.json'' sample_registry
     = (False, snd (add_checkpoint (sample_externals sample_files) 1000 mainnet_hash_1000 []
                      sample_registry))"
  by (simp add: load_checkpoints_from_json_def sample_files_sel get_max_height_def
      Let_def ADD_CHECKPOINT_def add_checkpoint_def sample_simps)

lemma load_skipped:
  "load_checkpoints_from_json (sample_externals sample_files) ''skipped.json'' sample_registry
     = (False, sample_registry)"
  by (simp add: load_checkpoints_from_json_def sample_files_sel get_max_height_def
      Let_def ADD_CHECKPOINT_def add_checkpoint_def sample_simps)

lemma load_checkpoints:
  "load_checkpoints_from_json (sample_externals sample_files) ''checkpoints.json''
       sample_registry
     = (True, snd (add_checkpoint (sample_externals sample_files) 1000 mainnet_hash_1000 []
                      sample_registry))"
  by (simp add: load_checkpoints_from_json_def sample_files_sel get_max_height_def
      Let_def ADD_CHECKPOINT_def add_checkpoint_def sample_simps)

lemma sample_added_1000:
  "map_of (m_points (snd (add_checkpoint (sample_externals sample_files) 1000 mainnet_hash_1000
                             [] sample_registry))) 1000 = hex_to_pod32 mainnet_hash_1000"
  "map_of (m_points (snd (add_checkpoint (sample_externals sample_files) 1000 mainnet_hash_1000
                             [] sample_registry))) 400 = None"
  "map_of (m_points (snd (add_checkpoint (sample_externals sample_files) 1000 mainnet_hash_1000
                             [] sample_registry))) 500 = hex_to_pod32 mainnet_hash_500"
  by (simp_all add: add_checkpoint_def sample_simps)

lemma load_checkpoints_from_json_wf:
  "wf_checkpoints s \<Longrightarrow> wf_checkpoints (snd (load_checkpoints_from_json E path s))"
  by (simp add: load_checkpoints_from_json_def load_hashlines_wf split: option.splits)

lemma load_new_checkpoints_wf:
  "wf_checkpoints s \<Longrightarrow> wf_checkpoints (snd (load_new_checkpoints E path nettype dns s))"
  using load_checkpoints_from_json_wf [of s E path]
  by (auto simp: load_new_checkpoints_def load_checkpoints_from_dns_def split: prod.splits)

section \<open>Properties of the conflict check\<close>

lemma conflict_loop_iff:
  "conflict_loop m pts =
     (\<forall>pt \<in> set pts. map_of m (fst pt) = None \<or> map_of m (fst pt) = Some (snd pt))"
  by (induction pts) auto

lemma spec_merge_anchors_iff:
  "distinct (map fst pts) \<Longrightarrow>
     fst (spec_merge_anchors pts s) =
       (\<forall>pt \<in> set pts. map_of (m_points s) (fst pt) = None
                        \<or> map_of (m_points s) (fst pt) = Some (snd pt))"
proof (induction pts arbitrary: s)
  case Nil
  then show ?case by simp
next
  case (Cons pt pts)
  from Cons.prems have fresh: "\<forall>q \<in> set pts. fst q \<noteq> fst pt" and d: "distinct (map fst pts)"
    by (auto simp: image_iff)
  show ?case
  proof (cases "fst (spec_insert_hash_anchor (fst pt) (snd pt) s)")
    case False
    then have "\<not> (map_of (m_points s) (fst pt) = None
                  \<or> map_of (m_points s) (fst pt) = Some (snd pt))"
      by (auto simp: spec_insert_hash_anchor_def split: option.splits if_splits)
    with False show ?thesis by (auto split: prod.splits)
  next
    case True
    let ?s1 = "snd (spec_insert_hash_anchor (fst pt) (snd pt) s)"
    from True have ok: "map_of (m_points s) (fst pt) = None
                  \<or> map_of (m_points s) (fst pt) = Some (snd pt)"
      by (auto simp: spec_insert_hash_anchor_def split: option.splits if_splits)
    from True have other: "\<forall>k. k \<noteq> fst pt \<longrightarrow> map_of (m_points ?s1) k = map_of (m_points s) k"
      by (auto simp: spec_insert_hash_anchor_def map_of_map_assign split: option.splits if_splits)
    from True have "fst (spec_merge_anchors (pt # pts) s) = fst (spec_merge_anchors pts ?s1)"
      by (auto split: prod.splits)
    also have "\<dots> = (\<forall>q \<in> set pts. map_of (m_points ?s1) (fst q) = None
                        \<or> map_of (m_points ?s1) (fst q) = Some (snd q))"
      using Cons.IH [OF d] .
    also have "\<dots> = (\<forall>q \<in> set pts. map_of (m_points s) (fst q) = None
                        \<or> map_of (m_points s) (fst q) = Some (snd q))"
      using fresh other by auto
    finally show ?thesis using ok by simp
  qed
qed

lemma map_ordered_distinct: "map_ordered m \<Longrightarrow> distinct (map fst m)"
  unfolding map_ordered_def by (simp add: strict_sorted_iff)

section \<open>The claims\<close>

text \<open>
  C1. On a registry whose maps are ordered as \<open>std::map\<close> keeps them,
  \<open>is_alternative_block_allowed(chain_height, fork_height)\<close> is false when the fork
  height is 0; otherwise it is true when the chain height is strictly below every anchored
  height; otherwise it is true exactly when the fork height is strictly greater than the
  greatest anchored height at or below the chain height. With anchors exactly at 500,
  1000 and 1500 (whatever their hashes): (400, 100) is allowed, (1600, 1500) is not,
  (1600, 1501) is.
\<close>

theorem alternative_block_allowed_policy:
  assumes "wf_checkpoints s"
  shows "is_alternative_block_allowed s chain_height fork_height =
           (if fork_height = 0 then False
            else if \<forall>a \<in> anchored s. chain_height < a then True
            else Max {a \<in> anchored s. a \<le> chain_height} < fork_height)
         \<and> (map fst (m_points s) = [500, 1000, 1500] \<longrightarrow>
               is_alternative_block_allowed s 400 100
               \<and> \<not> is_alternative_block_allowed s 1600 1500
               \<and> is_alternative_block_allowed s 1600 1501)"
proof
  from assms have ord: "map_ordered (m_points s)" by (simp add: wf_checkpoints_def)
  let ?it = "upper_bound (m_points s) chain_height"
  let ?below = "{a \<in> anchored s. a \<le> chain_height}"
  show "is_alternative_block_allowed s chain_height fork_height =
           (if fork_height = 0 then False
            else if \<forall>a \<in> anchored s. chain_height < a then True
            else Max ?below < fork_height)"
  proof (cases "?it = 0")
    case True
    with ord have "\<forall>a \<in> anchored s. chain_height < a"
      by (simp add: upper_bound_zero anchored_def)
    with True show ?thesis by (auto simp: is_alternative_block_allowed_def)
  next
    case False
    with ord have some: "\<not> (\<forall>a \<in> anchored s. chain_height < a)"
      by (simp add: upper_bound_zero anchored_def)
    let ?c = "fst (m_points s ! (?it - 1))"
    from upper_bound_pred [OF ord False]
    have c: "?c \<in> anchored s" "?c \<le> chain_height"
      "\<forall>x \<in> anchored s. x \<le> chain_height \<longrightarrow> x \<le> ?c"
      by (simp_all add: anchored_def)
    have "finite ?below" by (simp add: anchored_def)
    then have "Max ?below = ?c" using c by (intro Max_eqI) auto
    with False some show ?thesis by (auto simp: is_alternative_block_allowed_def Let_def)
  qed
next
  show "map fst (m_points s) = [500, 1000, 1500] \<longrightarrow>
               is_alternative_block_allowed s 400 100
               \<and> \<not> is_alternative_block_allowed s 1600 1500
               \<and> is_alternative_block_allowed s 1600 1501"
  proof
    assume "map fst (m_points s) = [500, 1000, 1500]"
    then obtain x y z where "m_points s = [(500, x), (1000, y), (1500, z)]"
      by (auto simp: map_eq_Cons_conv)
    then show "is_alternative_block_allowed s 400 100
               \<and> \<not> is_alternative_block_allowed s 1600 1500
               \<and> is_alternative_block_allowed s 1600 1501"
      by (simp add: is_alternative_block_allowed_def)
  qed
qed

theorem alternative_block_allowed_policy_witness:
  "wf_checkpoints \<lparr>m_points = [(500, 5), (1000, 10), (1500, 15 :: nat)],
                   m_difficulty_points = [(500, 1147344 :: nat)]\<rparr>
   \<and> is_alternative_block_allowed
         \<lparr>m_points = [(500, 5), (1000, 10), (1500, 15 :: nat)],
          m_difficulty_points = [(500, 1147344 :: nat)]\<rparr> 400 100
   \<and> \<not> is_alternative_block_allowed
         \<lparr>m_points = [(500, 5), (1000, 10), (1500, 15 :: nat)],
          m_difficulty_points = [(500, 1147344 :: nat)]\<rparr> 1600 1500
   \<and> is_alternative_block_allowed
         \<lparr>m_points = [(500, 5), (1000, 10), (1500, 15 :: nat)],
          m_difficulty_points = [(500, 1147344 :: nat)]\<rparr> 1600 1501"
proof -
  let ?s = "\<lparr>m_points = [(500, 5), (1000, 10), (1500, 15 :: nat)],
             m_difficulty_points = [(500, 1147344 :: nat)]\<rparr>"
  have wf: "wf_checkpoints ?s" by (simp add: wf_checkpoints_def map_ordered_def)
  from alternative_block_allowed_policy [OF wf, of 1600 1500, THEN conjunct2] wf
  show ?thesis by simp
qed

text \<open>
  C2. \<open>check_block(height, hash)\<close> gives (ok, is_anchored) = (true, false) when the
  height has no hash anchor, (true, true) when the anchor at the height equals the hash,
  and (false, true) when the anchor at the height differs from the hash. The method is
  \<open>const\<close>: \<open>check_block\<close> is a function of the registry that returns no registry, so
  the registry after a call is the registry before it.
\<close>

theorem check_block_cases:
  "(map_of (m_points s) hgt = None \<longrightarrow> check_block s hgt h = (True, False))
   \<and> (map_of (m_points s) hgt = Some h \<longrightarrow> check_block s hgt h = (True, True))
   \<and> (\<forall>h0. map_of (m_points s) hgt = Some h0 \<and> h0 \<noteq> h \<longrightarrow> check_block s hgt h = (False, True))"
  by (simp add: check_block_def)

theorem check_block_cases_witness:
  "check_block \<lparr>m_points = [(1000, 10 :: nat)], m_difficulty_points = ([] :: (uint64_t \<times> nat) list)\<rparr> 999 10 = (True, False)
   \<and> check_block \<lparr>m_points = [(1000, 10 :: nat)], m_difficulty_points = ([] :: (uint64_t \<times> nat) list)\<rparr> 1000 10 = (True, True)
   \<and> check_block \<lparr>m_points = [(1000, 10 :: nat)], m_difficulty_points = ([] :: (uint64_t \<times> nat) list)\<rparr> 1000 11 = (False, True)"
proof -
  let ?s = "\<lparr>m_points = [(1000, 10 :: nat)], m_difficulty_points = ([] :: (uint64_t \<times> nat) list)\<rparr>"
  from check_block_cases [of ?s 999 10] have a: "check_block ?s 999 10 = (True, False)" by simp
  from check_block_cases [of ?s 1000 10] have b: "check_block ?s 1000 10 = (True, True)" by simp
  from check_block_cases [of ?s 1000 11] have c: "check_block ?s 1000 11 = (False, True)" by simp
  from a b c show ?thesis by blast
qed

text \<open>
  C3. At a height that already has the hash anchor \<open>h1\<close>, \<open>add_checkpoint\<close> with a
  hash string that decodes to another hash \<open>h2\<close> fails, whatever the difficulty string:
  the registry afterwards is the registry before, so the entry at the height is still
  \<open>h1\<close> and both maps are as they were.
\<close>

theorem add_checkpoint_conflict_rejected:
  assumes "map_of (m_points s) hgt = Some h1"
    and "hex_to_pod E hash_str = Some h2"
    and "h2 \<noteq> h1"
  shows "add_checkpoint E hgt hash_str difficulty_str s = (False, s)
         \<and> map_of (m_points (snd (add_checkpoint E hgt hash_str difficulty_str s))) hgt = Some h1
         \<and> m_points (snd (add_checkpoint E hgt hash_str difficulty_str s)) = m_points s
         \<and> m_difficulty_points (snd (add_checkpoint E hgt hash_str difficulty_str s))
             = m_difficulty_points s"
  using assms by (simp add: add_checkpoint_def)

theorem add_checkpoint_conflict_rejected_witness:
  "map_of (m_points sample_registry) 500 = hex_to_pod32 mainnet_hash_500
   \<and> hex_to_pod (sample_externals []) mainnet_hash_1000 = hex_to_pod32 mainnet_hash_1000
   \<and> hex_to_pod32 mainnet_hash_1000 \<noteq> None
   \<and> hex_to_pod32 mainnet_hash_1000 \<noteq> hex_to_pod32 mainnet_hash_500
   \<and> add_checkpoint (sample_externals []) 500 mainnet_hash_1000 ''0x14bef2'' sample_registry
       = (False, sample_registry)"
proof -
  let ?h1 = "the (hex_to_pod32 mainnet_hash_500)" and ?h2 = "the (hex_to_pod32 mainnet_hash_1000)"
  have a: "map_of (m_points sample_registry) 500 = Some ?h1" by (simp add: sample_simps)
  have b: "hex_to_pod (sample_externals []) mainnet_hash_1000 = Some ?h2"
    by (simp add: sample_simps)
  have c: "?h2 \<noteq> ?h1" by (simp add: sample_simps)
  from add_checkpoint_conflict_rejected [OF a b c, of "''0x14bef2''"]
  have "add_checkpoint (sample_externals []) 500 mainnet_hash_1000 ''0x14bef2'' sample_registry
       = (False, sample_registry)" by blast
  then show ?thesis by (simp add: sample_simps)
qed

text \<open>
  C4 as stated fails: loading \<open>partial.json\<close> (a valid record at height 1000, then a
  malformed hash at height 1500) into \<open>sample_registry\<close> returns failure, and the
  anchor of height 1000 remains in the registry.
\<close>

theorem load_from_json_all_or_none_counterexample:
  "fst (load_checkpoints_from_json (sample_externals sample_files) ''partial.json''
          sample_registry) = False
   \<and> snd (load_checkpoints_from_json (sample_externals sample_files) ''partial.json''
            sample_registry) \<noteq> sample_registry
   \<and> map_of (m_points sample_registry) 1000 = None
   \<and> map_of (m_points (snd (load_checkpoints_from_json (sample_externals sample_files)
                               ''partial.json'' sample_registry))) 1000
       = hex_to_pod32 mainnet_hash_1000
   \<and> hex_to_pod32 mainnet_hash_1000 \<noteq> None"
proof -
  let ?s' = "snd (load_checkpoints_from_json (sample_externals sample_files) ''partial.json''
            sample_registry)"
  have a: "map_of (m_points sample_registry) 1000 = None" by (simp add: sample_registry_eq)
  have b: "map_of (m_points ?s') 1000 = hex_to_pod32 mainnet_hash_1000"
    by (simp add: load_partial sample_added_1000)
  have c: "hex_to_pod32 mainnet_hash_1000 \<noteq> None" by (simp add: hex_1000)
  from a b c have "?s' \<noteq> sample_registry" by metis
  with a b c show ?thesis by (simp add: load_partial)
qed

text \<open>
  C4, amended. A failing load is atomic per record, not all-or-none. If
  \<open>load_checkpoints_from_json\<close> returns failure, then the file exists and either it did
  not parse and the registry is unchanged, or the loop stopped at the first record above
  the baseline whose hash is malformed or conflicts with an anchor. Then the registry
  afterwards is the registry after the successful processing of the records before that
  one, and their insertions remain: every record before it that is strictly above the
  baseline is anchored afterwards with its decoded hash. The anchors at or below the
  baseline and the difficulty anchors are as before, the failing record changes nothing,
  and the records after it are not processed.
\<close>

theorem load_from_json_failure_keeps_prefix:
  assumes "load_checkpoints_from_json E path s = (False, s')"
  shows "file_exists E path
         \<and> ((load_t_from_json_file E path = None \<and> s' = s)
            \<or> (\<exists>hashes pre l post.
                  load_t_from_json_file E path = Some hashes
                  \<and> hashlines hashes = pre @ l # post
                  \<and> load_hashlines E (get_max_height s) pre s = (True, s')
                  \<and> (\<forall>r \<in> set pre. get_max_height s < height r \<longrightarrow>
                         hex_to_pod E (hash r) \<noteq> None
                         \<and> map_of (m_points s') (height r) = hex_to_pod E (hash r))
                  \<and> (\<forall>hgt. hgt \<le> get_max_height s \<longrightarrow>
                         map_of (m_points s') hgt = map_of (m_points s) hgt)
                  \<and> m_difficulty_points s' = m_difficulty_points s
                  \<and> get_max_height s < height l
                  \<and> add_checkpoint E (height l) (hash l) [] s' = (False, s')
                  \<and> (hex_to_pod E (hash l) = None
                       \<or> (\<exists>h h0. hex_to_pod E (hash l) = Some h
                               \<and> map_of (m_points s') (height l) = Some h0 \<and> h0 \<noteq> h))))"
proof -
  from assms have ex: "file_exists E path"
    by (auto simp: load_checkpoints_from_json_def split: if_splits)
  show ?thesis
  proof (cases "load_t_from_json_file E path")
    case None
    with assms ex show ?thesis by (simp add: load_checkpoints_from_json_def)
  next
    case (Some hashes)
    with assms ex have "load_hashlines E (get_max_height s) (hashlines hashes) s = (False, s')"
      by (simp add: load_checkpoints_from_json_def)
    from load_hashlines_failure [OF this] obtain pre l post where
      split: "hashlines hashes = pre @ l # post"
        "get_max_height s < height l"
      and pre: "load_hashlines E (get_max_height s) pre s = (True, s')"
      and fail: "add_checkpoint E (height l) (hash l) [] s' = (False, s')"
      by blast
    from add_checkpoint_no_difficulty_failure [OF fail]
    have why: "hex_to_pod E (hash l) = None
            \<or> (\<exists>h h0. hex_to_pod E (hash l) = Some h
                    \<and> map_of (m_points s') (height l) = Some h0 \<and> h0 \<noteq> h)"
      by blast
    have kept: "\<forall>r \<in> set pre. get_max_height s < height r \<longrightarrow>
                  hex_to_pod E (hash r) \<noteq> None
                  \<and> map_of (m_points s') (height r) = hex_to_pod E (hash r)"
      using load_hashlines_success [OF pre] by blast
    have s': "s' = snd (load_hashlines E (get_max_height s) pre s)" using pre by simp
    have low: "\<forall>hgt. hgt \<le> get_max_height s \<longrightarrow>
                 map_of (m_points s') hgt = map_of (m_points s) hgt"
      unfolding s' by (simp add: load_hashlines_below)
    have dif: "m_difficulty_points s' = m_difficulty_points s"
      unfolding s' by (rule load_hashlines_difficulty)
    from Some split pre fail why kept low dif ex show ?thesis by blast
  qed
qed

theorem load_from_json_failure_keeps_prefix_witness:
  "load_checkpoints_from_json (sample_externals sample_files) ''partial.json'' sample_registry
     = (False, snd (load_checkpoints_from_json (sample_externals sample_files) ''partial.json''
                      sample_registry))
   \<and> map_of (m_points sample_registry) 1000 = None
   \<and> map_of (m_points (snd (load_checkpoints_from_json (sample_externals sample_files)
                               ''partial.json'' sample_registry))) 1000
       = hex_to_pod32 mainnet_hash_1000
   \<and> hex_to_pod32 mainnet_hash_1000 \<noteq> None
   \<and> map_of (m_points (snd (load_checkpoints_from_json (sample_externals sample_files)
                               ''partial.json'' sample_registry))) 500
       = map_of (m_points sample_registry) 500"
proof -
  let ?E = "sample_externals sample_files"
  let ?s' = "snd (load_checkpoints_from_json ?E ''partial.json'' sample_registry)"
  let ?r1 = "\<lparr>height = 1000, hash = mainnet_hash_1000\<rparr>"
  let ?r2 = "\<lparr>height = 1500, hash = ''zz''\<rparr>"
  have failed: "load_checkpoints_from_json ?E ''partial.json'' sample_registry = (False, ?s')"
    by (simp add: load_partial)
  have parsed: "load_t_from_json_file ?E ''partial.json'' = Some \<lparr>hashlines = [?r1, ?r2]\<rparr>"
    by (simp add: sample_files_sel)
  have first_ok: "fst (add_checkpoint ?E 1000 mainnet_hash_1000 [] sample_registry)"
    by (simp add: add_checkpoint_def sample_simps)
  have free: "map_of (m_points sample_registry) 1000 = None" by (simp add: sample_registry_eq)
  have valid: "hex_to_pod32 mainnet_hash_1000 \<noteq> None" by (simp add: hex_1000)
  from load_from_json_failure_keeps_prefix [OF failed] parsed
  obtain pre l post where
    split: "[?r1, ?r2] = pre @ l # post"
    and pre: "load_hashlines ?E (get_max_height sample_registry) pre sample_registry = (True, ?s')"
    and kept: "\<forall>r \<in> set pre. get_max_height sample_registry < height r \<longrightarrow>
                 hex_to_pod ?E (hash r) \<noteq> None
                 \<and> map_of (m_points ?s') (height r) = hex_to_pod ?E (hash r)"
    and low: "\<forall>hgt. hgt \<le> get_max_height sample_registry \<longrightarrow>
                 map_of (m_points ?s') hgt = map_of (m_points sample_registry) hgt"
    and fail: "add_checkpoint ?E (height l) (hash l) [] ?s' = (False, ?s')"
    by auto
  have "pre \<noteq> []"
  proof
    assume "pre = []"
    with split pre have "l = ?r1" "?s' = sample_registry" by simp_all
    with fail have "add_checkpoint ?E 1000 mainnet_hash_1000 [] sample_registry
                      = (False, sample_registry)"
      by simp
    with first_ok show False by simp
  qed
  with split have "?r1 \<in> set pre" by (cases pre) simp_all
  with kept have "map_of (m_points ?s') 1000 = hex_to_pod ?E mainnet_hash_1000"
    by (auto simp: sample_max_height)
  then have anchored: "map_of (m_points ?s') 1000 = hex_to_pod32 mainnet_hash_1000"
    by (simp add: sample_externals_sel)
  from low have "map_of (m_points ?s') 500 = map_of (m_points sample_registry) 500"
    by (simp add: sample_max_height)
  with failed free anchored valid show ?thesis by blast
qed

text \<open>
  C5 as stated fails: at height 500, where \<open>sample_registry\<close> holds another hash, a
  call with a valid hash string and the unparsable difficulty string \<open>zz\<close> fails on the
  hash conflict, and the pair is not stored.
\<close>

theorem add_checkpoint_bad_difficulty_counterexample:
  "hex_to_pod (sample_externals []) mainnet_hash_1000 \<noteq> None
   \<and> ''zz'' \<noteq> []
   \<and> difficulty_of_string (sample_externals []) ''zz'' = None
   \<and> fst (add_checkpoint (sample_externals []) 500 mainnet_hash_1000 ''zz'' sample_registry) = False
   \<and> map_of (m_points (snd (add_checkpoint (sample_externals []) 500 mainnet_hash_1000 ''zz''
                              sample_registry))) 500
       \<noteq> hex_to_pod (sample_externals []) mainnet_hash_1000"
  by (simp add: add_checkpoint_def sample_simps)

text \<open>
  C5, amended. For every height and valid hex hash that does not conflict with a hash
  anchor already at the height: if the difficulty string is non-empty and either fails to
  parse or conflicts with the difficulty anchor at the height, \<open>add_checkpoint\<close> returns
  failure and the (height, hash) pair is nevertheless stored in \<open>m_points\<close>; the
  difficulty anchors are untouched, and when the height had no hash anchor the registry
  after the failed call differs from the registry before.
\<close>

theorem add_checkpoint_bad_difficulty_keeps_hash:
  assumes "hex_to_pod E hash_str = Some h"
    and "map_of (m_points s) hgt = None \<or> map_of (m_points s) hgt = Some h"
    and "difficulty_str \<noteq> []"
    and "difficulty_of_string E difficulty_str = None
         \<or> (\<exists>d d0. difficulty_of_string E difficulty_str = Some d
                 \<and> map_of (m_difficulty_points s) hgt = Some d0 \<and> d0 \<noteq> d)"
  shows "add_checkpoint E hgt hash_str difficulty_str s
           = (False, s\<lparr>m_points := map_assign hgt h (m_points s)\<rparr>)
         \<and> map_of (m_points (snd (add_checkpoint E hgt hash_str difficulty_str s))) hgt = Some h
         \<and> (map_of (m_points s) hgt = None
              \<longrightarrow> snd (add_checkpoint E hgt hash_str difficulty_str s) \<noteq> s)"
proof -
  let ?s1 = "s\<lparr>m_points := map_assign hgt h (m_points s)\<rparr>"
  from assms have r: "add_checkpoint E hgt hash_str difficulty_str s = (False, ?s1)"
    by (auto simp: add_checkpoint_def Let_def)
  have stored: "map_of (m_points ?s1) hgt = Some h" by (simp add: map_of_map_assign)
  have "?s1 \<noteq> s" if "map_of (m_points s) hgt = None"
  proof
    assume "?s1 = s"
    then have "map_of (m_points ?s1) hgt = map_of (m_points s) hgt" by simp
    with stored that show False by simp
  qed
  with r stored show ?thesis by simp
qed

theorem add_checkpoint_bad_difficulty_keeps_hash_witness:
  "hex_to_pod32 mainnet_hash_1000 \<noteq> None
   \<and> fst (add_checkpoint (sample_externals []) 1000 mainnet_hash_1000 ''zz'' sample_registry)
       = False
   \<and> map_of (m_points (snd (add_checkpoint (sample_externals []) 1000 mainnet_hash_1000 ''zz''
                              sample_registry))) 1000 = hex_to_pod32 mainnet_hash_1000
   \<and> snd (add_checkpoint (sample_externals []) 1000 mainnet_hash_1000 ''zz'' sample_registry)
       \<noteq> sample_registry
   \<and> fst (add_checkpoint (sample_externals []) 500 mainnet_hash_500 ''0x14bef2'' sample_registry)
       = False
   \<and> map_of (m_points (snd (add_checkpoint (sample_externals []) 500 mainnet_hash_500
                              ''0x14bef2'' sample_registry))) 500 = hex_to_pod32 mainnet_hash_500"
proof -
  let ?E = "sample_externals [] :: (8 word list, nat) externals"
  obtain h where h: "hex_to_pod32 mainnet_hash_1000 = Some h" using hex_1000 by blast
  have a: "hex_to_pod ?E mainnet_hash_1000 = Some h" by (simp add: sample_externals_sel h)
  have n: "map_of (m_points sample_registry) 1000 = None" by (simp add: sample_registry_eq)
  then have b: "map_of (m_points sample_registry) 1000 = None
           \<or> map_of (m_points sample_registry) 1000 = Some h" ..
  have c: "''zz'' \<noteq> []" by simp
  have "difficulty_of_string ?E ''zz'' = None"
    by (simp add: sample_externals_sel difficulty_samples)
  then have d: "difficulty_of_string ?E ''zz'' = None
           \<or> (\<exists>d d0. difficulty_of_string ?E ''zz'' = Some d
                 \<and> map_of (m_difficulty_points sample_registry) 1000 = Some d0 \<and> d0 \<noteq> d)" ..
  note r = add_checkpoint_bad_difficulty_keeps_hash [OF a b c d]
  from r have "fst (add_checkpoint ?E 1000 mainnet_hash_1000 ''zz'' sample_registry) = False"
    by (metis fst_conv)
  moreover from r n
  have "map_of (m_points (snd (add_checkpoint ?E 1000 mainnet_hash_1000 ''zz'' sample_registry)))
       1000 = Some h"
    "snd (add_checkpoint ?E 1000 mainnet_hash_1000 ''zz'' sample_registry) \<noteq> sample_registry"
    by blast+
  ultimately have first:
    "fst (add_checkpoint ?E 1000 mainnet_hash_1000 ''zz'' sample_registry) = False"
    "map_of (m_points (snd (add_checkpoint ?E 1000 mainnet_hash_1000 ''zz'' sample_registry)))
       1000 = Some h"
    "snd (add_checkpoint ?E 1000 mainnet_hash_1000 ''zz'' sample_registry) \<noteq> sample_registry"
    by blast+
  obtain h5 where h5: "hex_to_pod32 mainnet_hash_500 = Some h5" using hex_500 by blast
  have a5: "hex_to_pod ?E mainnet_hash_500 = Some h5" by (simp add: sample_externals_sel h5)
  have "map_of (m_points sample_registry) 500 = Some h5"
    using h5 by (simp add: sample_registry_eq hex_500)
  then have b5: "map_of (m_points sample_registry) 500 = None
           \<or> map_of (m_points sample_registry) 500 = Some h5" ..
  have c5: "''0x14bef2'' \<noteq> []" by simp
  have "\<exists>d d0. difficulty_of_string ?E ''0x14bef2'' = Some d
                 \<and> map_of (m_difficulty_points sample_registry) 500 = Some d0 \<and> d0 \<noteq> d"
    by (simp add: sample_externals_sel difficulty_samples sample_registry_eq)
  then have d5: "difficulty_of_string ?E ''0x14bef2'' = None
           \<or> (\<exists>d d0. difficulty_of_string ?E ''0x14bef2'' = Some d
                 \<and> map_of (m_difficulty_points sample_registry) 500 = Some d0 \<and> d0 \<noteq> d)" ..
  note r5 = add_checkpoint_bad_difficulty_keeps_hash [OF a5 b5 c5 d5]
  from r5
  have "fst (add_checkpoint ?E 500 mainnet_hash_500 ''0x14bef2'' sample_registry) = False"
    by (metis fst_conv)
  moreover from r5
  have "map_of (m_points (snd (add_checkpoint ?E 500 mainnet_hash_500 ''0x14bef2''
                              sample_registry))) 500 = Some h5"
    by blast
  ultimately have second:
    "fst (add_checkpoint ?E 500 mainnet_hash_500 ''0x14bef2'' sample_registry) = False"
    "map_of (m_points (snd (add_checkpoint ?E 500 mainnet_hash_500 ''0x14bef2''
                              sample_registry))) 500 = Some h5"
    by blast+
  from first second h h5 show ?thesis by simp
qed

text \<open>
  C6. For every network type and registry \<open>load_checkpoints_from_dns\<close> returns failure
  and leaves the registry unchanged. So \<open>load_new_checkpoints\<close> with the dns flag set
  returns failure, with the registry that \<open>load_checkpoints_from_json\<close> left (it always
  runs), and with the dns flag clear returns exactly what \<open>load_checkpoints_from_json\<close>
  returns.
\<close>

theorem dns_loader_disabled:
  "load_checkpoints_from_dns nettype s = (False, s)
   \<and> fst (load_new_checkpoints E path nettype True s) = False
   \<and> snd (load_new_checkpoints E path nettype True s) = snd (load_checkpoints_from_json E path s)
   \<and> load_new_checkpoints E path nettype False s = load_checkpoints_from_json E path s"
  by (simp add: load_checkpoints_from_dns_def load_new_checkpoints_def split: prod.splits)

theorem dns_loader_disabled_witness:
  "load_checkpoints_from_dns MAINNET sample_registry = (False, sample_registry)
   \<and> fst (load_checkpoints_from_json (sample_externals sample_files) ''checkpoints.json''
            sample_registry) = True
   \<and> fst (load_new_checkpoints (sample_externals sample_files) ''checkpoints.json'' MAINNET True
            sample_registry) = False
   \<and> map_of (m_points (snd (load_new_checkpoints (sample_externals sample_files)
                               ''checkpoints.json'' MAINNET True sample_registry))) 1000
       = hex_to_pod32 mainnet_hash_1000
   \<and> fst (load_new_checkpoints (sample_externals sample_files) ''checkpoints.json'' MAINNET False
            sample_registry) = True"
proof -
  let ?E = "sample_externals sample_files"
  note r = dns_loader_disabled [of MAINNET sample_registry ?E "''checkpoints.json''"]
  from r have 1: "load_checkpoints_from_dns MAINNET sample_registry = (False, sample_registry)"
    by blast
  from r have 2: "fst (load_new_checkpoints ?E ''checkpoints.json'' MAINNET True
                        sample_registry) = False"
    by blast
  from r have "snd (load_new_checkpoints ?E ''checkpoints.json'' MAINNET True sample_registry)
                = snd (load_checkpoints_from_json ?E ''checkpoints.json'' sample_registry)"
    by blast
  then have 3: "map_of (m_points (snd (load_new_checkpoints ?E ''checkpoints.json'' MAINNET
                   True sample_registry))) 1000 = hex_to_pod32 mainnet_hash_1000"
    by (simp add: load_checkpoints sample_added_1000)
  from r have "load_new_checkpoints ?E ''checkpoints.json'' MAINNET False sample_registry
                = load_checkpoints_from_json ?E ''checkpoints.json'' sample_registry"
    by blast
  then have 4: "fst (load_new_checkpoints ?E ''checkpoints.json'' MAINNET False
                       sample_registry) = True"
    by (simp add: load_checkpoints)
  have 5: "fst (load_checkpoints_from_json ?E ''checkpoints.json'' sample_registry) = True"
    by (simp add: load_checkpoints)
  from 1 2 3 4 5 show ?thesis by blast
qed

text \<open>
  C7 as stated fails: \<open>check_for_conflicts\<close> inserts nothing. Against the empty
  registry it succeeds on \<open>sample_registry\<close>, and the empty registry still has no anchor
  at height 500, where the merge of the specification has inserted one.
\<close>

theorem check_for_conflicts_merge_counterexample:
  "check_for_conflicts (checkpoints :: (8 word list, nat) checkpoints) sample_registry = True
   \<and> fst (spec_merge (checkpoints :: (8 word list, nat) checkpoints) sample_registry) = True
   \<and> snd (spec_merge (checkpoints :: (8 word list, nat) checkpoints) sample_registry)
       \<noteq> (checkpoints :: (8 word list, nat) checkpoints)
   \<and> map_of (m_points (snd (spec_merge (checkpoints :: (8 word list, nat) checkpoints)
                               sample_registry))) 500 \<noteq> None
   \<and> map_of (m_points (checkpoints :: (8 word list, nat) checkpoints)) 500 = None"
  by (simp add: check_for_conflicts_def spec_merge_def spec_insert_hash_anchor_def
      checkpoints_def sample_registry_eq)

text \<open>
  C7, amended. \<open>check_for_conflicts\<close> is a read-only check (a \<open>const\<close> method, a
  function that returns no registry): it succeeds exactly when no hash anchor of the other
  registry has a height that this registry anchors with a different hash; on a
  well-formed other registry this is the success of the specification's merge, whose
  insertions it does not perform; and the difficulty anchors of neither registry take part.
\<close>

theorem check_for_conflicts_is_a_check:
  "check_for_conflicts s other =
     (\<forall>pt \<in> set (m_points other).
        map_of (m_points s) (fst pt) = None \<or> map_of (m_points s) (fst pt) = Some (snd pt))
   \<and> (wf_checkpoints other \<longrightarrow> check_for_conflicts s other = fst (spec_merge s other))
   \<and> check_for_conflicts (s\<lparr>m_difficulty_points := d1\<rparr>) (other\<lparr>m_difficulty_points := d2\<rparr>)
       = check_for_conflicts s other"
  by (simp add: check_for_conflicts_def conflict_loop_iff spec_merge_def wf_checkpoints_def
      spec_merge_anchors_iff map_ordered_distinct)

theorem check_for_conflicts_is_a_check_witness:
  "wf_checkpoints sample_registry
   \<and> wf_checkpoints conflicting_registry
   \<and> check_for_conflicts (checkpoints :: (8 word list, nat) checkpoints) sample_registry
   \<and> fst (spec_merge (checkpoints :: (8 word list, nat) checkpoints) sample_registry)
   \<and> \<not> check_for_conflicts sample_registry conflicting_registry
   \<and> \<not> fst (spec_merge sample_registry conflicting_registry)
   \<and> check_for_conflicts (sample_registry\<lparr>m_difficulty_points := []\<rparr>)
         (conflicting_registry\<lparr>m_difficulty_points := [(500, 7)]\<rparr>)
       = check_for_conflicts sample_registry conflicting_registry"
proof -
  let ?e = "checkpoints :: (8 word list, nat) checkpoints"
  have wf: "wf_checkpoints sample_registry" "wf_checkpoints conflicting_registry"
    by (simp_all add: wf_checkpoints_def map_ordered_def sample_registry_eq
        conflicting_registry_eq)
  note a = check_for_conflicts_is_a_check [of ?e sample_registry]
  note b = check_for_conflicts_is_a_check [of sample_registry conflicting_registry "[]" "[(500, 7)]"]
  have "\<forall>pt \<in> set (m_points sample_registry).
          map_of (m_points ?e) (fst pt) = None \<or> map_of (m_points ?e) (fst pt) = Some (snd pt)"
    by (simp add: checkpoints_def)
  with a have a1: "check_for_conflicts ?e sample_registry" by blast
  with a wf have a2: "fst (spec_merge ?e sample_registry)" by blast
  have "\<not> (\<forall>pt \<in> set (m_points conflicting_registry).
          map_of (m_points sample_registry) (fst pt) = None
          \<or> map_of (m_points sample_registry) (fst pt) = Some (snd pt))"
    by (simp add: sample_registry_eq conflicting_registry_eq)
  with b have b1: "\<not> check_for_conflicts sample_registry conflicting_registry" by blast
  with b wf have b2: "\<not> fst (spec_merge sample_registry conflicting_registry)" by blast
  from b have b3: "check_for_conflicts (sample_registry\<lparr>m_difficulty_points := []\<rparr>)
         (conflicting_registry\<lparr>m_difficulty_points := [(500, 7)]\<rparr>)
       = check_for_conflicts sample_registry conflicting_registry"
    by blast
  from wf a1 a2 b1 b2 b3 show ?thesis by blast
qed

text \<open>
  C8 as stated fails: \<open>skipped.json\<close> parses and its record at height 2000 is above the
  baseline 500 with a valid hex hash, but the record before it has a malformed hash, the
  load stops there, and height 2000 is not anchored afterwards.
\<close>

theorem load_from_json_every_record_counterexample:
  "load_t_from_json_file (sample_externals sample_files) ''skipped.json''
     = Some \<lparr>hashlines = [\<lparr>height = 1500, hash = ''zz''\<rparr>,
                          \<lparr>height = 2000, hash = mainnet_hash_1000\<rparr>]\<rparr>
   \<and> get_max_height sample_registry < 2000
   \<and> hex_to_pod (sample_externals sample_files) mainnet_hash_1000 \<noteq> None
   \<and> map_of (m_points (snd (load_checkpoints_from_json (sample_externals sample_files)
                               ''skipped.json'' sample_registry))) 2000 = None"
  by (simp add: load_skipped sample_files_sel sample_max_height sample_externals_sel hex_1000)
     (simp add: sample_registry_eq)

text \<open>
  C8, amended. \<open>load_checkpoints_from_json\<close> on a path whose file does not exist returns
  success and leaves the registry unchanged. When the file parses, the records at or
  below the baseline (\<open>get_max_height\<close> before any insertion) are skipped: the load
  does what the loop does on the records strictly above the baseline alone, and the
  registry is unchanged at every height at or below the baseline; a record strictly above
  the baseline with a valid hex hash that the loop reaches (the records before it were
  processed successfully) at a height that is free or holds the same hash is in the
  registry afterwards; and when the load succeeds, every record strictly above the
  baseline has a valid hex hash and is in the registry afterwards with its decoded hash.
\<close>

theorem load_from_json_records:
  "(\<not> file_exists E path \<longrightarrow> load_checkpoints_from_json E path s = (True, s))
   \<and> (\<forall>hashes. file_exists E path \<and> load_t_from_json_file E path = Some hashes \<longrightarrow>
         load_checkpoints_from_json E path s
           = load_hashlines E (get_max_height s)
               (filter (\<lambda>l. get_max_height s < height l) (hashlines hashes)) s
         \<and> (\<forall>hgt. hgt \<le> get_max_height s \<longrightarrow>
                map_of (m_points (snd (load_checkpoints_from_json E path s))) hgt
                  = map_of (m_points s) hgt)
         \<and> (\<forall>pre l post s1 h.
                hashlines hashes = pre @ l # post
                \<and> load_hashlines E (get_max_height s) pre s = (True, s1)
                \<and> get_max_height s < height l
                \<and> hex_to_pod E (hash l) = Some h
                \<and> (map_of (m_points s1) (height l) = None
                     \<or> map_of (m_points s1) (height l) = Some h) \<longrightarrow>
                map_of (m_points (snd (load_checkpoints_from_json E path s))) (height l)
                  = Some h)
         \<and> (fst (load_checkpoints_from_json E path s) \<longrightarrow>
               (\<forall>l \<in> set (hashlines hashes). get_max_height s < height l \<longrightarrow>
                  hex_to_pod E (hash l) \<noteq> None
                  \<and> map_of (m_points (snd (load_checkpoints_from_json E path s))) (height l)
                      = hex_to_pod E (hash l))))"
proof (intro conjI impI allI)
  assume "\<not> file_exists E path"
  then show "load_checkpoints_from_json E path s = (True, s)"
    by (simp add: load_checkpoints_from_json_def)
next
  fix hashes
  assume "file_exists E path \<and> load_t_from_json_file E path = Some hashes"
  then show "load_checkpoints_from_json E path s
               = load_hashlines E (get_max_height s)
                   (filter (\<lambda>l. get_max_height s < height l) (hashlines hashes)) s"
    by (simp add: load_checkpoints_from_json_def) (rule load_hashlines_filter)
next
  fix hashes hgt
  assume f: "file_exists E path \<and> load_t_from_json_file E path = Some hashes"
    and "hgt \<le> get_max_height s"
  then show "map_of (m_points (snd (load_checkpoints_from_json E path s))) hgt
               = map_of (m_points s) hgt"
    by (simp add: load_checkpoints_from_json_def load_hashlines_below)
next
  fix hashes pre l post s1 h
  assume f: "file_exists E path \<and> load_t_from_json_file E path = Some hashes"
    and r: "hashlines hashes = pre @ l # post
            \<and> load_hashlines E (get_max_height s) pre s = (True, s1)
            \<and> get_max_height s < height l
            \<and> hex_to_pod E (hash l) = Some h
            \<and> (map_of (m_points s1) (height l) = None
                 \<or> map_of (m_points s1) (height l) = Some h)"
  from r have "map_of (m_points (snd (load_hashlines E (get_max_height s) (pre @ l # post) s)))
                 (height l) = Some h"
    by (intro load_hashlines_reached) blast+
  with f r show "map_of (m_points (snd (load_checkpoints_from_json E path s))) (height l)
                  = Some h"
    by (simp add: load_checkpoints_from_json_def)
next
  fix hashes
  assume f: "file_exists E path \<and> load_t_from_json_file E path = Some hashes"
    and ok: "fst (load_checkpoints_from_json E path s)"
  let ?s' = "snd (load_checkpoints_from_json E path s)"
  from f ok have run: "load_hashlines E (get_max_height s) (hashlines hashes) s = (True, ?s')"
    by (simp add: load_checkpoints_from_json_def prod_eq_iff)
  show "\<forall>l \<in> set (hashlines hashes). get_max_height s < height l \<longrightarrow>
          hex_to_pod E (hash l) \<noteq> None
          \<and> map_of (m_points ?s') (height l) = hex_to_pod E (hash l)"
    using load_hashlines_success [OF run] by blast
qed

theorem load_from_json_records_witness:
  "load_checkpoints_from_json (sample_externals sample_files) ''missing.json'' sample_registry
     = (True, sample_registry)
   \<and> fst (load_checkpoints_from_json (sample_externals sample_files) ''checkpoints.json''
            sample_registry)
   \<and> map_of (m_points (snd (load_checkpoints_from_json (sample_externals sample_files)
                               ''checkpoints.json'' sample_registry))) 400
       = map_of (m_points sample_registry) 400
   \<and> map_of (m_points (snd (load_checkpoints_from_json (sample_externals sample_files)
                               ''checkpoints.json'' sample_registry))) 500
       = map_of (m_points sample_registry) 500
   \<and> map_of (m_points (snd (load_checkpoints_from_json (sample_externals sample_files)
                               ''checkpoints.json'' sample_registry))) 1000
       = hex_to_pod32 mainnet_hash_1000
   \<and> hex_to_pod32 mainnet_hash_1000 \<noteq> None
   \<and> map_of (m_points (snd (load_checkpoints_from_json (sample_externals sample_files)
                               ''partial.json'' sample_registry))) 1000
       = hex_to_pod32 mainnet_hash_1000"
proof -
  let ?E = "sample_externals sample_files"
  let ?file = "\<lparr>hashlines = [\<lparr>height = 400, hash = mainnet_hash_1000\<rparr>,
                             \<lparr>height = 1000, hash = mainnet_hash_1000\<rparr>]\<rparr>"
  let ?part = "\<lparr>hashlines = [\<lparr>height = 1000, hash = mainnet_hash_1000\<rparr>,
                             \<lparr>height = 1500, hash = ''zz''\<rparr>]\<rparr>"
  let ?l = "\<lparr>height = 1000, hash = mainnet_hash_1000\<rparr>"
  obtain h where h: "hex_to_pod32 mainnet_hash_1000 = Some h" using hex_1000 by blast
  have missing: "\<not> file_exists ?E ''missing.json''" by (simp add: sample_files_sel)
  have present: "file_exists ?E ''checkpoints.json''
                 \<and> load_t_from_json_file ?E ''checkpoints.json'' = Some ?file"
    by (simp add: sample_files_sel)
  have ok: "fst (load_checkpoints_from_json ?E ''checkpoints.json'' sample_registry)"
    by (simp add: load_checkpoints)
  have le: "(400 :: uint64_t) \<le> get_max_height sample_registry"
    "(500 :: uint64_t) \<le> get_max_height sample_registry"
    by (simp_all add: sample_max_height)
  have mem: "?l \<in> set (hashlines ?file) \<and> get_max_height sample_registry < height ?l"
    by (simp add: sample_max_height)
  have partial: "file_exists ?E ''partial.json''
                 \<and> load_t_from_json_file ?E ''partial.json'' = Some ?part"
    by (simp add: sample_files_sel)
  have reached: "hashlines ?part = [] @ ?l # [\<lparr>height = 1500, hash = ''zz''\<rparr>]
       \<and> load_hashlines ?E (get_max_height sample_registry) [] sample_registry
           = (True, sample_registry)
       \<and> get_max_height sample_registry < height ?l
       \<and> hex_to_pod ?E (hash ?l) = Some h
       \<and> (map_of (m_points sample_registry) (height ?l) = None
            \<or> map_of (m_points sample_registry) (height ?l) = Some h)"
    by (simp add: sample_max_height sample_externals_sel h) (simp add: sample_registry_eq)
  note a = load_from_json_records [of ?E "''missing.json''" sample_registry]
  note b = load_from_json_records [of ?E "''checkpoints.json''" sample_registry]
  note c = load_from_json_records [of ?E "''partial.json''" sample_registry]
  from a missing
  have 1: "load_checkpoints_from_json ?E ''missing.json'' sample_registry
             = (True, sample_registry)"
    by blast
  from b present le
  have 2: "map_of (m_points (snd (load_checkpoints_from_json ?E ''checkpoints.json''
                                    sample_registry))) 400
             = map_of (m_points sample_registry) 400"
    "map_of (m_points (snd (load_checkpoints_from_json ?E ''checkpoints.json''
                                    sample_registry))) 500
             = map_of (m_points sample_registry) 500"
    by blast+
  from b present ok mem
  have "map_of (m_points (snd (load_checkpoints_from_json ?E ''checkpoints.json''
                                 sample_registry))) (height ?l)
          = hex_to_pod ?E (hash ?l)"
    by blast
  then have 3: "map_of (m_points (snd (load_checkpoints_from_json ?E ''checkpoints.json''
                                 sample_registry))) 1000 = hex_to_pod32 mainnet_hash_1000"
    by (simp add: sample_externals_sel)
  from c partial reached
  have "map_of (m_points (snd (load_checkpoints_from_json ?E ''partial.json''
                                 sample_registry))) (height ?l) = Some h"
    by blast
  then have 4: "map_of (m_points (snd (load_checkpoints_from_json ?E ''partial.json''
                                 sample_registry))) 1000 = hex_to_pod32 mainnet_hash_1000"
    by (simp add: h)
  from 1 2 3 4 ok h show ?thesis by simp
qed

text \<open>
  C9 as stated fails: the insertion does not succeed for every height and hash. At height
  500, where \<open>sample_registry\<close> holds another hash, inserting the pair twice fails both
  times.
\<close>

theorem add_checkpoint_twice_counterexample:
  "\<not> (fst (add_checkpoint (sample_externals []) 500 mainnet_hash_1000 [] sample_registry)
      \<and> fst (add_checkpoint (sample_externals []) 500 mainnet_hash_1000 []
               (snd (add_checkpoint (sample_externals []) 500 mainnet_hash_1000 []
                       sample_registry))))"
  by (simp add: add_checkpoint_def sample_simps)

text \<open>
  C9, amended. Hash-anchor insertion is idempotent: for every registry, height, hash
  string and difficulty argument, a second \<open>add_checkpoint\<close> with the same arguments
  returns what the first returned and leaves the registry as the first left it. The
  insertion succeeds both times exactly when the hash string decodes, the height has no
  hash anchor or the same one, and the difficulty argument is empty or decodes to a
  difficulty that the height has no anchor for or the same one; otherwise it fails both
  times.
\<close>

theorem add_checkpoint_idempotent:
  "add_checkpoint E hgt hash_str difficulty_str
       (snd (add_checkpoint E hgt hash_str difficulty_str s))
     = add_checkpoint E hgt hash_str difficulty_str s
   \<and> (fst (add_checkpoint E hgt hash_str difficulty_str s)
        \<and> fst (add_checkpoint E hgt hash_str difficulty_str
                 (snd (add_checkpoint E hgt hash_str difficulty_str s))))
       = (\<exists>h. hex_to_pod E hash_str = Some h
              \<and> (map_of (m_points s) hgt = None \<or> map_of (m_points s) hgt = Some h)
              \<and> (difficulty_str = []
                   \<or> (\<exists>d. difficulty_of_string E difficulty_str = Some d
                          \<and> (map_of (m_difficulty_points s) hgt = None
                               \<or> map_of (m_difficulty_points s) hgt = Some d))))"
proof
  show "add_checkpoint E hgt hash_str difficulty_str
          (snd (add_checkpoint E hgt hash_str difficulty_str s))
        = add_checkpoint E hgt hash_str difficulty_str s"
    by (rule add_checkpoint_again)
  then have "fst (add_checkpoint E hgt hash_str difficulty_str
                    (snd (add_checkpoint E hgt hash_str difficulty_str s)))
               = fst (add_checkpoint E hgt hash_str difficulty_str s)"
    by (rule arg_cong)
  then show "(fst (add_checkpoint E hgt hash_str difficulty_str s)
        \<and> fst (add_checkpoint E hgt hash_str difficulty_str
                 (snd (add_checkpoint E hgt hash_str difficulty_str s))))
       = (\<exists>h. hex_to_pod E hash_str = Some h
              \<and> (map_of (m_points s) hgt = None \<or> map_of (m_points s) hgt = Some h)
              \<and> (difficulty_str = []
                   \<or> (\<exists>d. difficulty_of_string E difficulty_str = Some d
                          \<and> (map_of (m_difficulty_points s) hgt = None
                               \<or> map_of (m_difficulty_points s) hgt = Some d))))"
    using add_checkpoint_success [of E hgt hash_str difficulty_str s] by blast
qed

theorem add_checkpoint_idempotent_witness:
  "fst (add_checkpoint (sample_externals []) 1000 mainnet_hash_1000 ''0x14bef2'' sample_registry)
   \<and> fst (add_checkpoint (sample_externals []) 1000 mainnet_hash_1000 ''0x14bef2''
           (snd (add_checkpoint (sample_externals []) 1000 mainnet_hash_1000 ''0x14bef2''
                   sample_registry)))
   \<and> snd (add_checkpoint (sample_externals []) 1000 mainnet_hash_1000 ''0x14bef2''
           (snd (add_checkpoint (sample_externals []) 1000 mainnet_hash_1000 ''0x14bef2''
                   sample_registry)))
       = snd (add_checkpoint (sample_externals []) 1000 mainnet_hash_1000 ''0x14bef2''
                sample_registry)
   \<and> fst (add_checkpoint (sample_externals []) 500 mainnet_hash_500 ''0x1181d0'' sample_registry)
   \<and> fst (add_checkpoint (sample_externals []) 500 mainnet_hash_500 ''0x1181d0''
           (snd (add_checkpoint (sample_externals []) 500 mainnet_hash_500 ''0x1181d0''
                   sample_registry)))
   \<and> fst (add_checkpoint (sample_externals []) 1500 mainnet_hash_500 [] sample_registry)
   \<and> \<not> fst (add_checkpoint (sample_externals []) 500 mainnet_hash_1000 [] sample_registry)"
proof -
  let ?E = "sample_externals [] :: (8 word list, nat) externals"
  obtain h where h: "hex_to_pod32 mainnet_hash_1000 = Some h" using hex_1000 by blast
  obtain h5 where h5: "hex_to_pod32 mainnet_hash_500 = Some h5" using hex_500 by blast
  note a = add_checkpoint_idempotent [of ?E 1000 mainnet_hash_1000 "''0x14bef2''" sample_registry]
  note b = add_checkpoint_idempotent [of ?E 500 mainnet_hash_500 "''0x1181d0''" sample_registry]
  note c = add_checkpoint_idempotent [of ?E 1500 mainnet_hash_500 "[]" sample_registry]
  note d = add_checkpoint_idempotent [of ?E 500 mainnet_hash_1000 "[]" sample_registry]
  have ca: "\<exists>h. hex_to_pod ?E mainnet_hash_1000 = Some h
              \<and> (map_of (m_points sample_registry) 1000 = None
                   \<or> map_of (m_points sample_registry) 1000 = Some h)
              \<and> (''0x14bef2'' = []
                   \<or> (\<exists>d. difficulty_of_string ?E ''0x14bef2'' = Some d
                          \<and> (map_of (m_difficulty_points sample_registry) 1000 = None
                               \<or> map_of (m_difficulty_points sample_registry) 1000 = Some d)))"
    by (simp add: sample_externals_sel h difficulty_samples sample_registry_eq)
  have cb: "\<exists>h. hex_to_pod ?E mainnet_hash_500 = Some h
              \<and> (map_of (m_points sample_registry) 500 = None
                   \<or> map_of (m_points sample_registry) 500 = Some h)
              \<and> (''0x1181d0'' = []
                   \<or> (\<exists>d. difficulty_of_string ?E ''0x1181d0'' = Some d
                          \<and> (map_of (m_difficulty_points sample_registry) 500 = None
                               \<or> map_of (m_difficulty_points sample_registry) 500 = Some d)))"
    by (simp add: sample_externals_sel hex_500 difficulty_samples sample_registry_eq)
  have cc: "\<exists>h. hex_to_pod ?E mainnet_hash_500 = Some h
              \<and> (map_of (m_points sample_registry) 1500 = None
                   \<or> map_of (m_points sample_registry) 1500 = Some h)
              \<and> (([] :: string) = []
                   \<or> (\<exists>d. difficulty_of_string ?E [] = Some d
                          \<and> (map_of (m_difficulty_points sample_registry) 1500 = None
                               \<or> map_of (m_difficulty_points sample_registry) 1500 = Some d)))"
    by (simp add: sample_externals_sel h5 sample_registry_eq)
  have cd: "\<not> (\<exists>h. hex_to_pod ?E mainnet_hash_1000 = Some h
              \<and> (map_of (m_points sample_registry) 500 = None
                   \<or> map_of (m_points sample_registry) 500 = Some h)
              \<and> (([] :: string) = []
                   \<or> (\<exists>d. difficulty_of_string ?E [] = Some d
                          \<and> (map_of (m_difficulty_points sample_registry) 500 = None
                               \<or> map_of (m_difficulty_points sample_registry) 500 = Some d))))"
    by (simp add: sample_externals_sel hex_1000 sample_registry_eq)
  from a ca have a1:
    "fst (add_checkpoint ?E 1000 mainnet_hash_1000 ''0x14bef2'' sample_registry)"
    "fst (add_checkpoint ?E 1000 mainnet_hash_1000 ''0x14bef2''
           (snd (add_checkpoint ?E 1000 mainnet_hash_1000 ''0x14bef2'' sample_registry)))"
    by blast+
  from a have "add_checkpoint ?E 1000 mainnet_hash_1000 ''0x14bef2''
           (snd (add_checkpoint ?E 1000 mainnet_hash_1000 ''0x14bef2'' sample_registry))
       = add_checkpoint ?E 1000 mainnet_hash_1000 ''0x14bef2'' sample_registry"
    by blast
  then have a2: "snd (add_checkpoint ?E 1000 mainnet_hash_1000 ''0x14bef2''
           (snd (add_checkpoint ?E 1000 mainnet_hash_1000 ''0x14bef2'' sample_registry)))
       = snd (add_checkpoint ?E 1000 mainnet_hash_1000 ''0x14bef2'' sample_registry)"
    by (rule arg_cong)
  from b cb have b1:
    "fst (add_checkpoint ?E 500 mainnet_hash_500 ''0x1181d0'' sample_registry)"
    "fst (add_checkpoint ?E 500 mainnet_hash_500 ''0x1181d0''
           (snd (add_checkpoint ?E 500 mainnet_hash_500 ''0x1181d0'' sample_registry)))"
    by blast+
  from c cc have c1: "fst (add_checkpoint ?E 1500 mainnet_hash_500 [] sample_registry)"
    by blast
  from d have "add_checkpoint ?E 500 mainnet_hash_1000 []
           (snd (add_checkpoint ?E 500 mainnet_hash_1000 [] sample_registry))
       = add_checkpoint ?E 500 mainnet_hash_1000 [] sample_registry"
    by blast
  then have "fst (add_checkpoint ?E 500 mainnet_hash_1000 []
           (snd (add_checkpoint ?E 500 mainnet_hash_1000 [] sample_registry)))
       = fst (add_checkpoint ?E 500 mainnet_hash_1000 [] sample_registry)"
    by (rule arg_cong)
  with d cd have d1: "\<not> fst (add_checkpoint ?E 500 mainnet_hash_1000 [] sample_registry)"
    by blast
  from a1 a2 b1 c1 d1 show ?thesis by blast
qed

text \<open>
  C10. On a registry without hash anchors \<open>get_max_height\<close> is 0 and
  \<open>is_in_checkpoint_zone\<close> is false at every height; on a registry with hash anchors
  \<open>get_max_height\<close> is the greatest anchored height, and \<open>is_in_checkpoint_zone\<close>
  holds exactly for the heights at or below it.
\<close>

theorem max_height_and_zone:
  "(m_points s = [] \<longrightarrow>
      get_max_height s = 0 \<and> (\<forall>hgt. \<not> is_in_checkpoint_zone s hgt))
   \<and> (wf_checkpoints s \<and> m_points s \<noteq> [] \<longrightarrow>
        get_max_height s = Max (anchored s)
        \<and> (\<forall>hgt. is_in_checkpoint_zone s hgt = (hgt \<le> Max (anchored s))))"
  by (simp add: get_max_height_def is_in_checkpoint_zone_def wf_checkpoints_def
      anchored_def last_is_Max)

theorem max_height_and_zone_witness:
  "get_max_height (checkpoints :: (nat, nat) checkpoints) = 0
   \<and> \<not> is_in_checkpoint_zone (checkpoints :: (nat, nat) checkpoints) 0
   \<and> get_max_height \<lparr>m_points = [(500, 5), (1000, 10), (1500, 15 :: nat)],
                       m_difficulty_points = [(500, 1147344 :: nat)]\<rparr> = 1500
   \<and> is_in_checkpoint_zone \<lparr>m_points = [(500, 5), (1000, 10), (1500, 15 :: nat)],
                              m_difficulty_points = [(500, 1147344 :: nat)]\<rparr> 1500
   \<and> \<not> is_in_checkpoint_zone \<lparr>m_points = [(500, 5), (1000, 10), (1500, 15 :: nat)],
                                 m_difficulty_points = [(500, 1147344 :: nat)]\<rparr> 1501"
proof -
  let ?e = "checkpoints :: (nat, nat) checkpoints"
  let ?s = "\<lparr>m_points = [(500, 5), (1000, 10), (1500, 15 :: nat)],
             m_difficulty_points = [(500, 1147344 :: nat)]\<rparr>"
  have e: "m_points ?e = []" by (simp add: checkpoints_def)
  have wf: "wf_checkpoints ?s \<and> m_points ?s \<noteq> []"
    by (simp add: wf_checkpoints_def map_ordered_def)
  have mx: "Max (anchored ?s) = 1500" by (simp add: anchored_def)
  from max_height_and_zone [of ?e] e
  have a: "get_max_height ?e = 0 \<and> \<not> is_in_checkpoint_zone ?e 0" by blast
  from max_height_and_zone [of ?s] wf mx
  have b: "get_max_height ?s = 1500 \<and> is_in_checkpoint_zone ?s 1500
           \<and> \<not> is_in_checkpoint_zone ?s 1501"
    by simp
  from a b show ?thesis by blast
qed

end
